theory Spec2Isabelle
  imports Main "HOL-Library.Sublist"
begin

chapter \<open>The program and the notions of its specification\<close>

section \<open>JavaScript values of the style objects\<close>

text \<open>
  The three style columns of a formatting rule (\<open>headingStyles\<close>, \<open>codeBlockStyles\<close>,
  \<open>tableStyles\<close>) are JSON columns, read by the renderer through \<open>as any\<close>. A field of
  such an object is any JSON value, or \<open>undefined\<close> when the key is absent. Numbers are
  integers (\<open>JNum\<close>); a finite non-integral number such as the literal \<open>1.4\<close> is carried
  as the decimal numeral JavaScript prints for it (\<open>JDec\<close>): it is never \<open>0\<close> nor
  \<open>NaN\<close>, hence truthy. \<open>NaN\<close> and arrays are not modelled.
\<close>

datatype jsval =
    JUndefined
  | JNull
  | JBool bool
  | JNum int
  | JDec string
  | JStr string
  | JObj "string \<Rightarrow> jsval option"

text \<open>
  Decimal printing of a number, as a template literal \<open>${n}\<close> does. An integer is printed
  in full, as JavaScript prints it while its absolute value is below \<open>1e21\<close>; from there
  on JavaScript prints an exponent, which is not modelled.
\<close>

fun show_nat :: "nat \<Rightarrow> string" where
  "show_nat n =
     (if n < 10 then [''0123456789'' ! n]
      else show_nat (n div 10) @ [''0123456789'' ! (n mod 10)])"

declare show_nat.simps [simp del]

definition show_int :: "int \<Rightarrow> string" where
  "show_int i = (if i < 0 then ''-'' @ show_nat (nat (- i)) else show_nat (nat i))"

abbreviation (input) dq :: string where
  "dq \<equiv> [CHR 0x22]"

abbreviation (input) sq :: string where
  "sq \<equiv> [CHR 0x27]"

text \<open>Truthiness, the operator \<open>||\<close>, string conversion and property reads.\<close>

fun js_truthy :: "jsval \<Rightarrow> bool" where
  "js_truthy JUndefined = False"
| "js_truthy JNull = False"
| "js_truthy (JBool b) = b"
| "js_truthy (JNum n) = (n \<noteq> 0)"
| "js_truthy (JDec s) = True"
| "js_truthy (JStr s) = (s \<noteq> [])"
| "js_truthy (JObj m) = True"

definition js_or :: "jsval \<Rightarrow> jsval \<Rightarrow> jsval" where
  "js_or a b = (if js_truthy a then a else b)"

fun js_toString :: "jsval \<Rightarrow> string" where
  "js_toString JUndefined = ''undefined''"
| "js_toString JNull = ''null''"
| "js_toString (JBool b) = (if b then ''true'' else ''false'')"
| "js_toString (JNum n) = show_int n"
| "js_toString (JDec s) = s"
| "js_toString (JStr s) = s"
| "js_toString (JObj m) = ''[object Object]''"

text \<open>\<open>obj[k]\<close> on an object given as a map: an absent key reads as \<open>undefined\<close>.\<close>

definition js_lookup :: "(string \<rightharpoonup> jsval) \<Rightarrow> string \<Rightarrow> jsval" where
  "js_lookup m k = (case m k of None \<Rightarrow> JUndefined | Some v \<Rightarrow> v)"

text \<open>
  \<open>v.k\<close> on a value. The renderer reads a property only of \<open>x || {}\<close>, which is truthy,
  so the read never meets \<open>null\<close> or \<open>undefined\<close>; the style keys are not properties of
  a primitive's prototype, so a truthy primitive reads as \<open>undefined\<close>.
\<close>

fun js_get :: "jsval \<Rightarrow> string \<Rightarrow> jsval" where
  "js_get (JObj m) k = js_lookup m k"
| "js_get v k = JUndefined"

section \<open>The escaper\<close>

text \<open>
  \<open>text.replace(/[&<>"']/g, (m) => map[m])\<close>: every character of the class is replaced
  by its entry of the map, every other character is kept.
\<close>

fun escapeChar :: "char \<Rightarrow> string" where
  "escapeChar c =
     (if c = CHR ''&'' then ''&amp;''
      else if c = CHR ''<'' then ''&lt;''
      else if c = CHR ''>'' then ''&gt;''
      else if c = CHR 0x22 then ''&quot;''
      else if c = CHR 0x27 then ''&#039;''
      else [c])"

definition escapeHtml :: "string \<Rightarrow> string" where
  "escapeHtml text = concat (map escapeChar text)"

section \<open>The document tree and the formatting rule\<close>

text \<open>
  A node of the parser's tree is an object with a \<open>type\<close> tag and optional properties;
  the renderer dispatches on the tag and reads \<open>children\<close>, \<open>value\<close>, \<open>depth\<close> (the
  heading level), \<open>ordered\<close>, \<open>url\<close> and \<open>alt\<close>. \<open>node_children = None\<close> is a node
  without the property, \<open>node_ordered\<close> is the truthiness of \<open>ordered\<close>.
\<close>

datatype node = Node
  (node_type: string)
  (node_children: "node list option")
  (node_value: string)
  (node_depth: nat)
  (node_ordered: bool)
  (node_url: string)
  (node_alt: "string option")

text \<open>The object literal \<open>{ type: "root", children: cs }\<close> of the recursive calls.\<close>

definition root_node :: "node list option \<Rightarrow> node" where
  "root_node cs = Node ''root'' cs [] 0 False [] None"

text \<open>
  A row of the \<open>formattingRules\<close> table (\<open>rule_id\<close> is its column \<open>id\<close>). The integer
  columns are integers; \<open>lineHeight\<close> is a decimal column, which the driver returns as a
  string; the two dates are instants; \<open>pageSize = None\<close> is a rule object without the
  property. The three style columns hold JSON objects (\<open>Record<string, unknown>\<close> in
  \<open>db.ts\<close>, which stores the default styles in place of a missing one): a style object
  that is \<open>null\<close>, on which a property read throws, is outside this type.
\<close>

record FormattingRule =
  rule_id :: int
  userId :: int
  name :: string
  description :: "string option"
  fontFamily :: string
  fontSize :: int
  lineHeight :: string
  headingStyles :: "string \<rightharpoonup> jsval"
  pageSize :: "string option"
  marginTop :: int
  marginBottom :: int
  marginLeft :: int
  marginRight :: int
  headerText :: "string option"
  footerText :: "string option"
  codeBlockStyles :: "string \<rightharpoonup> jsval"
  tableStyles :: "string \<rightharpoonup> jsval"
  pageBreakBeforeHeadings :: string
  preventOrphanHeadings :: int
  keepCodeBlocksTogether :: int
  isPreset :: int
  createdAt :: nat
  updatedAt :: nat

section \<open>The tree-to-markup renderer\<close>

text \<open>
  For the termination of the renderer: a child is smaller than its node, and the node
  \<open>{ type: "root", children: node.children }\<close> is as large as \<open>node\<close> but is a root.
\<close>

lemma size_child:
  assumes "node_children n = Some cs" and "c \<in> set cs"
  shows "size c < size n"
proof -
  have "size c \<le> size_list size cs"
    using assms(2) by (rule size_list_estimation') simp
  with assms(1) show ?thesis
    by (cases n) simp
qed

lemma size_grandchild:
  assumes "node_children n = Some rows" and "row \<in> set rows"
    and "node_children row = Some cells" and "cell \<in> set cells"
  shows "size cell < size n"
  using size_child [OF assms(1,2)] size_child [OF assms(3,4)] by simp

lemma size_root_node [simp]: "size (root_node (node_children n)) = size n"
  by (cases n) (simp add: root_node_def)

lemma node_type_root_node [simp]: "node_type (root_node cs) = ''root''"
  by (simp add: root_node_def)

lemma node_children_root_node [simp]: "node_children (root_node cs) = cs"
  by (simp add: root_node_def)

lemma in_enumerate_snd: "p \<in> set (enumerate k xs) \<Longrightarrow> snd p \<in> set xs"
  by (cases p) (auto simp: in_set_enumerate_eq)

text \<open>
  \<open>astToHtml\<close>, branch by branch as in the source; \<open>forEach\<close> with \<open>html += ...\<close> is the
  concatenation of the fragments in order, \<open>children?.forEach\<close> does nothing on a node
  without children.
\<close>

function astToHtml :: "node \<Rightarrow> FormattingRule \<Rightarrow> nat \<Rightarrow> string" where
  "astToHtml node rules depth =
    (if node_type node = ''root'' then
       (case node_children node of None \<Rightarrow> []
        | Some cs \<Rightarrow> concat (map (\<lambda>child. astToHtml child rules depth) cs))
     else if node_type node = ''heading'' then
       (let level = node_depth node;
            headingStyle = js_or (js_lookup (headingStyles rules) (''h'' @ show_nat level)) (JObj Map.empty);
            content = astToHtml (root_node (node_children node)) rules depth
        in ''<h''
           @ show_nat level
           @ '' style='' @ dq @ ''font-size: ''
           @ js_toString (js_or (js_get headingStyle ''fontSize'') (JNum 16))
           @ ''px; font-weight: ''
           @ js_toString (js_or (js_get headingStyle ''fontWeight'') (JNum 600))
           @ ''; margin-top: ''
           @ js_toString (js_or (js_get headingStyle ''marginTop'') (JNum 12))
           @ ''px; margin-bottom: ''
           @ js_toString (js_or (js_get headingStyle ''marginBottom'') (JNum 6))
           @ ''px;'' @ dq @ ''>''
           @ content
           @ ''</h''
           @ show_nat level
           @ ''>'')
     else if node_type node = ''paragraph'' then
       (let content = astToHtml (root_node (node_children node)) rules depth
        in ''<p style='' @ dq @ ''margin-bottom: 1em; line-height: ''
           @ lineHeight rules
           @ '';'' @ dq @ ''>''
           @ content
           @ ''</p>'')
     else if node_type node = ''text'' then
       escapeHtml (node_value node)
     else if node_type node = ''emphasis'' then
       (let content = astToHtml (root_node (node_children node)) rules depth
        in ''<em>''
           @ content
           @ ''</em>'')
     else if node_type node = ''strong'' then
       (let content = astToHtml (root_node (node_children node)) rules depth
        in ''<strong>''
           @ content
           @ ''</strong>'')
     else if node_type node = ''inlineCode'' then
       (let codeStyle = codeBlockStyles rules
        in ''<code style='' @ dq @ ''font-family: ''
           @ js_toString (js_or (js_lookup codeStyle ''fontFamily'') (JStr ''monospace''))
           @ ''; font-size: ''
           @ js_toString (js_or (js_lookup codeStyle ''fontSize'') (JNum 11))
           @ ''px; background-color: ''
           @ js_toString (js_or (js_lookup codeStyle ''backgroundColor'') (JStr ''#f5f5f5''))
           @ ''; padding: 2px 4px; border-radius: 3px;'' @ dq @ ''>''
           @ escapeHtml (node_value node)
           @ ''</code>'')
     else if node_type node = ''code'' then
       (let codeStyle = codeBlockStyles rules;
            content = escapeHtml (node_value node)
        in ''<pre style='' @ dq @ ''font-family: ''
           @ js_toString (js_or (js_lookup codeStyle ''fontFamily'') (JStr ''monospace''))
           @ ''; font-size: ''
           @ js_toString (js_or (js_lookup codeStyle ''fontSize'') (JNum 11))
           @ ''px; background-color: ''
           @ js_toString (js_or (js_lookup codeStyle ''backgroundColor'') (JStr ''#f5f5f5''))
           @ ''; padding: ''
           @ js_toString (js_or (js_lookup codeStyle ''padding'') (JNum 12))
           @ ''px; border-radius: ''
           @ js_toString (js_or (js_lookup codeStyle ''borderRadius'') (JNum 4))
           @ ''px; overflow-x: auto; line-height: ''
           @ js_toString (js_or (js_lookup codeStyle ''lineHeight'') (JDec ''1.4''))
           @ '';'' @ dq @ ''><code>''
           @ content
           @ ''</code></pre>'')
     else if node_type node = ''list'' then
       (let tag = (if node_ordered node then ''ol'' else ''ul'');
            content = astToHtml (root_node (node_children node)) rules (depth + 1)
        in ''<''
           @ tag
           @ '' style='' @ dq @ ''margin-left: ''
           @ show_nat (20 + depth * 20)
           @ ''px; margin-bottom: 1em;'' @ dq @ ''>''
           @ content
           @ ''</''
           @ tag
           @ ''>'')
     else if node_type node = ''listItem'' then
       (let content = astToHtml (root_node (node_children node)) rules depth
        in ''<li>''
           @ content
           @ ''</li>'')
     else if node_type node = ''blockquote'' then
       (let content = astToHtml (root_node (node_children node)) rules depth
        in ''<blockquote style='' @ dq @ ''border-left: 4px solid #ccc; padding-left: 12px; margin-left: 0; font-style: italic; color: #666;'' @ dq @ ''>''
           @ content
           @ ''</blockquote>'')
     else if node_type node = ''table'' then
       (let tableStyle = tableStyles rules
        in ''<table style='' @ dq @ ''border-collapse: collapse; width: 100%; margin-bottom: 1em; border: 1px solid ''
           @ js_toString (js_or (js_lookup tableStyle ''borderColor'') (JStr ''#ddd''))
           @ '';'' @ dq @ ''><tbody>''
           @ (case node_children node of None \<Rightarrow> []
              | Some rows \<Rightarrow> concat (map (\<lambda>(rowIndex, row).
                  (let isHeader = (rowIndex = 0 \<and> length rows > 1);
                       tag = (if isHeader then ''th'' else ''td'')
                   in ''<tr style='' @ dq @ ''background-color: ''
                      @ (if isHeader
                         then js_toString
                                (js_or (js_lookup tableStyle ''headerBackgroundColor'')
                                   (JStr ''#f9f9f9''))
                         else ''white'')
                      @ '';'' @ dq @ ''>''
                      @ (case node_children row of None \<Rightarrow> []
                         | Some cells \<Rightarrow> concat (map (\<lambda>cell.
                             (let cellContent = astToHtml (root_node (node_children cell)) rules depth
                              in ''<''
                                 @ tag
                                 @ '' style='' @ dq @ ''border: 1px solid ''
                                 @ js_toString (js_or (js_lookup tableStyle ''borderColor'') (JStr ''#ddd''))
                                 @ ''; padding: ''
                                 @ js_toString (js_or (js_lookup tableStyle ''cellPadding'') (JNum 8))
                                 @ ''px; font-size: ''
                                 @ js_toString (js_or (js_lookup tableStyle ''fontSize'') (JNum 11))
                                 @ ''px;'' @ dq @ ''>''
                                 @ cellContent
                                 @ ''</''
                                 @ tag
                                 @ ''>'')) cells))
                      @ ''</tr>'')) (enumerate 0 rows)))
           @ ''</tbody></table>'')
     else if node_type node = ''link'' then
       (let content = astToHtml (root_node (node_children node)) rules depth
        in ''<a href='' @ dq
           @ escapeHtml (node_url node)
           @ dq @ '' style='' @ dq @ ''color: #0066cc; text-decoration: underline;'' @ dq @ ''>''
           @ content
           @ ''</a>'')
     else if node_type node = ''image'' then
       ''<img src='' @ dq
       @ escapeHtml (node_url node)
       @ dq @ '' alt='' @ dq
       @ escapeHtml (case node_alt node of None \<Rightarrow> [] | Some a \<Rightarrow> a)
       @ dq @ '' style='' @ dq @ ''max-width: 100%; height: auto; margin: 1em 0;'' @ dq @ '' />''
     else if node_type node = ''thematicBreak'' then
       ''<hr style='' @ dq @ ''border: none; border-top: 1px solid #ccc; margin: 2em 0;'' @ dq @ '' />''
     else
       (case node_children node of None \<Rightarrow> []
        | Some cs \<Rightarrow> concat (map (\<lambda>child. astToHtml child rules depth) cs)))"
  by pat_completeness auto

termination
proof (relation "measures [\<lambda>(n, r, d). size n,
                            \<lambda>(n, r, d). if node_type n = ''root'' then 0 else 1]")
  show "wf (measures [\<lambda>(n, r, d). size n,
                      \<lambda>(n::node, r::FormattingRule, d::nat). if node_type n = ''root'' then 0 else (1::nat)])"
    by simp
qed (auto dest!: in_enumerate_snd dest: size_child size_grandchild)

declare astToHtml.simps [simp del]

section \<open>The document shell builder\<close>

definition generateStyledHtml :: "string \<Rightarrow> FormattingRule \<Rightarrow> string" where
  "generateStyledHtml content rules =
    (let pageSize' = (if pageSize rules = Some ''Letter'' then ''8.5in 11in'' else ''210mm 297mm'');
         marginTop' = show_int (marginTop rules) @ ''mm'';
         marginBottom' = show_int (marginBottom rules) @ ''mm'';
         marginLeft' = show_int (marginLeft rules) @ ''mm'';
         marginRight' = show_int (marginRight rules) @ ''mm''
     in
      ''\<newline>''
      @ ''<!DOCTYPE html>\<newline>''
      @ ''<html lang='' @ dq @ ''en'' @ dq @ ''>\<newline>''
      @ ''<head>\<newline>''
      @ ''  <meta charset='' @ dq @ ''UTF-8'' @ dq @ ''>\<newline>''
      @ ''  <meta name='' @ dq @ ''viewport'' @ dq @ '' content='' @ dq @ ''width=device-width, initial-scale=1.0'' @ dq @ ''>\<newline>''
      @ ''  <title>PDF Document</title>\<newline>''
      @ ''  <style>\<newline>''
      @ ''    * {\<newline>''
      @ ''      margin: 0;\<newline>''
      @ ''      padding: 0;\<newline>''
      @ ''      box-sizing: border-box;\<newline>''
      @ ''    }\<newline>''
      @ ''\<newline>''
      @ ''    @page {\<newline>''
      @ ''      size: ''
      @ pageSize'
      @ '';\<newline>''
      @ ''      margin: ''
      @ marginTop'
      @ '' ''
      @ marginRight'
      @ '' ''
      @ marginBottom'
      @ '' ''
      @ marginLeft'
      @ '';\<newline>''
      @ ''      ''
      @ (case headerText rules of None \<Rightarrow> [] | Some h \<Rightarrow>
        if h \<noteq> [] then ''@top-center { content: '' @ dq @ escapeHtml h @ dq @ ''; }'' else [])
      @ ''\<newline>''
      @ ''      ''
      @ (case footerText rules of None \<Rightarrow> [] | Some f \<Rightarrow>
        if f \<noteq> [] then ''@bottom-center { content: '' @ dq @ escapeHtml f @ dq @ ''; }'' else [])
      @ ''\<newline>''
      @ ''    }\<newline>''
      @ ''\<newline>''
      @ ''    body {\<newline>''
      @ ''      font-family: '' @ sq
      @ fontFamily rules
      @ sq @ '', sans-serif;\<newline>''
      @ ''      font-size: ''
      @ show_int (fontSize rules)
      @ ''px;\<newline>''
      @ ''      line-height: ''
      @ lineHeight rules
      @ '';\<newline>''
      @ ''      color: #333;\<newline>''
      @ ''    }\<newline>''
      @ ''\<newline>''
      @ ''    h1, h2, h3, h4, h5, h6 {\<newline>''
      @ ''      page-break-after: avoid;\<newline>''
      @ ''    }\<newline>''
      @ ''\<newline>''
      @ ''    ''
      @ (if pageBreakBeforeHeadings rules = ''h1'' then ''h1 { page-break-before: always; }'' else [])
      @ ''\<newline>''
      @ ''    ''
      @ (if pageBreakBeforeHeadings rules = ''h2'' then ''h2 { page-break-before: always; }'' else [])
      @ ''\<newline>''
      @ ''\<newline>''
      @ ''    ''
      @ (if preventOrphanHeadings rules \<noteq> 0 then ''h1, h2, h3 { page-break-after: avoid; orphans: 3; widows: 3; }'' else [])
      @ ''\<newline>''
      @ ''\<newline>''
      @ ''    pre {\<newline>''
      @ ''      page-break-inside: avoid;\<newline>''
      @ ''    }\<newline>''
      @ ''\<newline>''
      @ ''    table {\<newline>''
      @ ''      page-break-inside: avoid;\<newline>''
      @ ''    }\<newline>''
      @ ''\<newline>''
      @ ''    img {\<newline>''
      @ ''      page-break-inside: avoid;\<newline>''
      @ ''    }\<newline>''
      @ ''\<newline>''
      @ ''    p {\<newline>''
      @ ''      margin-bottom: 1em;\<newline>''
      @ ''    }\<newline>''
      @ ''\<newline>''
      @ ''    ul, ol {\<newline>''
      @ ''      margin-left: 20px;\<newline>''
      @ ''      margin-bottom: 1em;\<newline>''
      @ ''    }\<newline>''
      @ ''\<newline>''
      @ ''    blockquote {\<newline>''
      @ ''      border-left: 4px solid #ccc;\<newline>''
      @ ''      padding-left: 12px;\<newline>''
      @ ''      margin-left: 0;\<newline>''
      @ ''      font-style: italic;\<newline>''
      @ ''      color: #666;\<newline>''
      @ ''      margin-bottom: 1em;\<newline>''
      @ ''    }\<newline>''
      @ ''\<newline>''
      @ ''    code {\<newline>''
      @ ''      font-family: '' @ sq @ ''Courier New'' @ sq @ '', monospace;\<newline>''
      @ ''      background-color: #f5f5f5;\<newline>''
      @ ''      padding: 2px 4px;\<newline>''
      @ ''      border-radius: 3px;\<newline>''
      @ ''    }\<newline>''
      @ ''\<newline>''
      @ ''    pre code {\<newline>''
      @ ''      padding: 0;\<newline>''
      @ ''      background-color: transparent;\<newline>''
      @ ''    }\<newline>''
      @ ''  </style>\<newline>''
      @ ''</head>\<newline>''
      @ ''<body>\<newline>''
      @ ''  ''
      @ content
      @ ''\<newline>''
      @ ''</body>\<newline>''
      @ ''</html>\<newline>''
      @ ''  '')"

text \<open>
  \<open>markdownToHtml\<close>: the parser (\<open>unified().use(remarkParse).use(remarkGfm)\<close>) is a
  library outside the repository, taken as the parameter \<open>parse\<close>; the renderer starts at
  the default \<open>depth = 0\<close>.
\<close>

definition markdownToHtml :: "(string \<Rightarrow> node) \<Rightarrow> string \<Rightarrow> FormattingRule \<Rightarrow> string" where
  "markdownToHtml parse markdown rules =
    (let ast = parse markdown;
         htmlContent = astToHtml ast rules 0
     in generateStyledHtml htmlContent rules)"

section \<open>The renderer, kind by kind\<close>

text \<open>
  The fragment of the children of a node: what \<open>astToHtml\<close> returns on
  \<open>{ type: "root", children: cs }\<close>.
\<close>

definition renderChildren :: "node list option \<Rightarrow> FormattingRule \<Rightarrow> nat \<Rightarrow> string" where
  "renderChildren cs rules depth =
     (case cs of None \<Rightarrow> []
      | Some xs \<Rightarrow> concat (map (\<lambda>child. astToHtml child rules depth) xs))"

text \<open>The style object of a heading level: \<open>rules.headingStyles[`h${level}`] || {}\<close>.\<close>

definition headingStyleOf :: "FormattingRule \<Rightarrow> nat \<Rightarrow> jsval" where
  "headingStyleOf rules level =
     js_or (js_lookup (headingStyles rules) (''h'' @ show_nat level)) (JObj Map.empty)"

text \<open>
  The body of the cell loop and of the row loop of a table; \<open>nrows\<close> is
  \<open>node.children.length\<close>.
\<close>

definition tableCell :: "FormattingRule \<Rightarrow> nat \<Rightarrow> string \<Rightarrow> node \<Rightarrow> string" where
  "tableCell rules depth tag cell =
     ''<''
     @ tag
     @ '' style='' @ dq @ ''border: 1px solid ''
     @ js_toString (js_or (js_lookup (tableStyles rules) ''borderColor'') (JStr ''#ddd''))
     @ ''; padding: ''
     @ js_toString (js_or (js_lookup (tableStyles rules) ''cellPadding'') (JNum 8))
     @ ''px; font-size: ''
     @ js_toString (js_or (js_lookup (tableStyles rules) ''fontSize'') (JNum 11))
     @ ''px;'' @ dq @ ''>''
     @ renderChildren (node_children cell) rules depth
     @ ''</''
     @ tag
     @ ''>''"

definition tableRow :: "FormattingRule \<Rightarrow> nat \<Rightarrow> nat \<Rightarrow> nat \<times> node \<Rightarrow> string" where
  "tableRow rules depth nrows = (\<lambda>(rowIndex, row).
     (let isHeader = (rowIndex = 0 \<and> nrows > 1);
          tag = (if isHeader then ''th'' else ''td'')
      in ''<tr style='' @ dq @ ''background-color: ''
         @ (if isHeader
            then js_toString
                   (js_or (js_lookup (tableStyles rules) ''headerBackgroundColor'')
                      (JStr ''#f9f9f9''))
            else ''white'')
         @ '';'' @ dq @ ''>''
         @ (case node_children row of None \<Rightarrow> []
            | Some cells \<Rightarrow> concat (map (tableCell rules depth tag) cells))
         @ ''</tr>''))"

text \<open>The kinds the renderer has a branch for; every other kind takes the last branch.\<close>

definition knownKinds :: "string list" where
  "knownKinds = [''root'', ''heading'', ''paragraph'', ''text'', ''emphasis'', ''strong'',
     ''inlineCode'', ''code'', ''list'', ''listItem'', ''blockquote'', ''table'', ''link'',
     ''image'', ''thematicBreak'']"

section \<open>The default styles and the rule of the test suite\<close>

text \<open>\<open>DEFAULT_HEADING_STYLES\<close>, \<open>DEFAULT_CODE_BLOCK_STYLES\<close> and \<open>DEFAULT_TABLE_STYLES\<close> of the schema.\<close>

definition DEFAULT_HEADING_STYLES :: "string \<rightharpoonup> jsval" where
  "DEFAULT_HEADING_STYLES =
    [''h1'' \<mapsto> JObj [''fontSize'' \<mapsto> JNum 32, ''fontWeight'' \<mapsto> JNum 900,
                      ''marginTop'' \<mapsto> JNum 24, ''marginBottom'' \<mapsto> JNum 12],
     ''h2'' \<mapsto> JObj [''fontSize'' \<mapsto> JNum 24, ''fontWeight'' \<mapsto> JNum 800,
                      ''marginTop'' \<mapsto> JNum 20, ''marginBottom'' \<mapsto> JNum 10],
     ''h3'' \<mapsto> JObj [''fontSize'' \<mapsto> JNum 20, ''fontWeight'' \<mapsto> JNum 700,
                      ''marginTop'' \<mapsto> JNum 16, ''marginBottom'' \<mapsto> JNum 8],
     ''h4'' \<mapsto> JObj [''fontSize'' \<mapsto> JNum 16, ''fontWeight'' \<mapsto> JNum 600,
                      ''marginTop'' \<mapsto> JNum 12, ''marginBottom'' \<mapsto> JNum 6],
     ''h5'' \<mapsto> JObj [''fontSize'' \<mapsto> JNum 14, ''fontWeight'' \<mapsto> JNum 600,
                      ''marginTop'' \<mapsto> JNum 10, ''marginBottom'' \<mapsto> JNum 4],
     ''h6'' \<mapsto> JObj [''fontSize'' \<mapsto> JNum 12, ''fontWeight'' \<mapsto> JNum 600,
                      ''marginTop'' \<mapsto> JNum 8, ''marginBottom'' \<mapsto> JNum 4]]"

definition DEFAULT_CODE_BLOCK_STYLES :: "string \<rightharpoonup> jsval" where
  "DEFAULT_CODE_BLOCK_STYLES =
    [''fontFamily'' \<mapsto> JStr ''monospace'', ''fontSize'' \<mapsto> JNum 11,
     ''backgroundColor'' \<mapsto> JStr ''#f5f5f5'', ''padding'' \<mapsto> JNum 12,
     ''borderRadius'' \<mapsto> JNum 4, ''lineHeight'' \<mapsto> JDec ''1.4'']"

definition DEFAULT_TABLE_STYLES :: "string \<rightharpoonup> jsval" where
  "DEFAULT_TABLE_STYLES =
    [''borderColor'' \<mapsto> JStr ''#ddd'', ''headerBackgroundColor'' \<mapsto> JStr ''#f9f9f9'',
     ''cellPadding'' \<mapsto> JNum 8, ''fontSize'' \<mapsto> JNum 11]"

text \<open>The rule the test suite renders with (its two dates are taken as \<open>0\<close>).\<close>

definition mockFormattingRule :: FormattingRule where
  "mockFormattingRule =
    \<lparr> rule_id = 1, userId = 1, name = ''Default'', description = None,
      fontFamily = ''Inter'', fontSize = 12, lineHeight = ''1.50'',
      headingStyles = DEFAULT_HEADING_STYLES,
      pageSize = Some ''A4'', marginTop = 20, marginBottom = 20, marginLeft = 20,
      marginRight = 20, headerText = None, footerText = None,
      codeBlockStyles = DEFAULT_CODE_BLOCK_STYLES, tableStyles = DEFAULT_TABLE_STYLES,
      pageBreakBeforeHeadings = ''h1'', preventOrphanHeadings = 1,
      keepCodeBlocksTogether = 1, isPreset = 0, createdAt = 0, updatedAt = 0 \<rparr>"

text \<open>Nodes as the parser builds them, for the kinds used below.\<close>

definition textNode :: "string \<Rightarrow> node" where
  "textNode v = Node ''text'' None v 0 False [] None"

definition parentNode :: "string \<Rightarrow> node list \<Rightarrow> node" where
  "parentNode kind cs = Node kind (Some cs) [] 0 False [] None"

definition headingNode :: "nat \<Rightarrow> node list \<Rightarrow> node" where
  "headingNode level cs = Node ''heading'' (Some cs) [] level False [] None"

definition listNode :: "bool \<Rightarrow> node list \<Rightarrow> node" where
  "listNode ordered cs = Node ''list'' (Some cs) [] 0 ordered [] None"



definition codeNode :: "string \<Rightarrow> string \<Rightarrow> node" where
  "codeNode kind v = Node kind None v 0 False [] None"

section \<open>The PDF pipeline\<close>

text \<open>
  \<open>generatePdfFromMarkdown\<close> with its collaborators made explicit. The environment holds
  the two variables of \<open>process.env\<close> the function reads and the file system as
  \<open>fs.existsSync\<close> sees it. The browser engine is the library behind \<open>puppeteer\<close>: each of
  its operations either succeeds or throws, and the function calls each at most once, so
  the engine is given by the outcome of each operation. An error is the one the function
  throws itself or one thrown by the engine. The function returns its result, a rejection
  being \<open>Inl\<close>, together with the calls it has made on the engine, in order (a call
  carries the arguments that vary: the endpoint, the executable path, the document and its
  \<open>waitUntil\<close> option, the options of the PDF).
\<close>

datatype error = ChromeNotFound | EngineError string

type_synonym buffer = "nat list"

record pdfOptions =
  format :: string
  margin_top :: string
  margin_bottom :: string
  margin_left :: string
  margin_right :: string
  printBackground :: bool

record environment =
  BROWSER_WS_ENDPOINT :: "string option"
  CHROME_PATH :: "string option"
  existsSync :: "string \<Rightarrow> bool"

record engine =
  puppeteer_connect :: "string \<Rightarrow> error option"
  puppeteer_launch :: "string \<Rightarrow> error option"
  browser_newPage :: "error option"
  page_setContent :: "string \<Rightarrow> error option"
  page_pdf :: "pdfOptions \<Rightarrow> error + buffer"
  browser_disconnect :: "error option"
  browser_close :: "error option"

datatype call =
    Connect string
  | Launch string
  | NewPage
  | SetContent string string
  | Pdf pdfOptions
  | Disconnect
  | Close

abbreviation (input) bs :: string where
  "bs \<equiv> [CHR 0x5C]"

text \<open>Truthiness of a string that may be undefined, as in \<open>if (browserWSEndpoint)\<close>.\<close>

definition truthyString :: "string option \<Rightarrow> bool" where
  "truthyString s = (case s of None \<Rightarrow> False | Some x \<Rightarrow> x \<noteq> [])"

text \<open>The candidate paths, \<open>.filter(Boolean)\<close> dropping an undefined or empty one.\<close>

definition chromePaths :: "environment \<Rightarrow> string list" where
  "chromePaths env =
     (case CHROME_PATH env of None \<Rightarrow> [] | Some p \<Rightarrow> if p \<noteq> [] then [p] else [])
     @ [''C:'' @ bs @ ''Program Files'' @ bs @ ''Google'' @ bs @ ''Chrome'' @ bs
          @ ''Application'' @ bs @ ''chrome.exe'',
        ''C:'' @ bs @ ''Program Files (x86)'' @ bs @ ''Google'' @ bs @ ''Chrome'' @ bs
          @ ''Application'' @ bs @ ''chrome.exe'',
        ''/usr/bin/google-chrome'',
        ''/usr/bin/chromium-browser'',
        ''/Applications/Google Chrome.app/Contents/MacOS/Google Chrome'']"

text \<open>
  The local branch of the acquisition: \<open>puppeteer.launch\<close> on the first candidate path
  that exists; without such a path the function throws before it calls the engine.
\<close>

definition launchLocal :: "environment \<Rightarrow> engine \<Rightarrow> error option \<times> call list" where
  "launchLocal env eng =
     (case find (existsSync env) (chromePaths env) of
        None \<Rightarrow> (Some ChromeNotFound, [])
      | Some executablePath \<Rightarrow>
          (puppeteer_launch eng executablePath, [Launch executablePath]))"

text \<open>
  The acquisition: by \<open>puppeteer.connect\<close> when the endpoint variable is truthy, else
  locally. The first component is the error thrown, \<open>None\<close> when a browser is held.
\<close>

definition acquireBrowser :: "environment \<Rightarrow> engine \<Rightarrow> error option \<times> call list" where
  "acquireBrowser env eng =
     (case BROWSER_WS_ENDPOINT env of
        None \<Rightarrow> launchLocal env eng
      | Some browserWSEndpoint \<Rightarrow>
          if browserWSEndpoint \<noteq> [] then
            (puppeteer_connect eng browserWSEndpoint, [Connect browserWSEndpoint])
          else launchLocal env eng)"

text \<open>The \<open>try\<close> block: a page, its content, its PDF.\<close>

definition tryBlock :: "engine \<Rightarrow> string \<Rightarrow> FormattingRule \<Rightarrow> (error + buffer) \<times> call list" where
  "tryBlock eng html rules =
     (case browser_newPage eng of
        Some e \<Rightarrow> (Inl e, [NewPage])
      | None \<Rightarrow>
         (case page_setContent eng html of
            Some e \<Rightarrow> (Inl e, [NewPage, SetContent html ''networkidle0''])
          | None \<Rightarrow>
             (let pageSize' = (if pageSize rules = Some ''Letter'' then ''Letter'' else ''A4'');
                  options = \<lparr> format = pageSize',
                    margin_top = show_int (marginTop rules) @ ''mm'',
                    margin_bottom = show_int (marginBottom rules) @ ''mm'',
                    margin_left = show_int (marginLeft rules) @ ''mm'',
                    margin_right = show_int (marginRight rules) @ ''mm'',
                    printBackground = True \<rparr>
              in (page_pdf eng options,
                  [NewPage, SetContent html ''networkidle0'', Pdf options]))))"

text \<open>The \<open>finally\<close> block: the release, by the same test of the endpoint variable.\<close>

definition finallyBlock :: "environment \<Rightarrow> engine \<Rightarrow> error option \<times> call list" where
  "finallyBlock env eng =
     (if truthyString (BROWSER_WS_ENDPOINT env) then (browser_disconnect eng, [Disconnect])
      else (browser_close eng, [Close]))"

text \<open>
  \<open>try { ... } finally { ... }\<close>: the \<open>finally\<close> block runs after the \<open>try\<close> block however
  that one ended; when the \<open>finally\<close> block throws, its error is the outcome of the
  statement, and the outcome of the \<open>try\<close> block, a value or an error, is dropped.
\<close>

definition tryFinally ::
  "(error + buffer) \<times> call list \<Rightarrow> error option \<times> call list \<Rightarrow> (error + buffer) \<times> call list" where
  "tryFinally body final =
     (case fst final of
        None \<Rightarrow> (fst body, snd body @ snd final)
      | Some e \<Rightarrow> (Inl e, snd body @ snd final))"

definition generatePdfFromMarkdown ::
  "(string \<Rightarrow> node) \<Rightarrow> environment \<Rightarrow> engine \<Rightarrow> string \<Rightarrow> FormattingRule
     \<Rightarrow> (error + buffer) \<times> call list" where
  "generatePdfFromMarkdown parse env eng markdown rules =
     (let html = markdownToHtml parse markdown rules;
          browser = acquireBrowser env eng
      in case fst browser of
           Some e \<Rightarrow> (Inl e, snd browser)
         | None \<Rightarrow>
            (let outcome = tryFinally (tryBlock eng html rules) (finallyBlock env eng)
             in (fst outcome, snd browser @ snd outcome)))"

text \<open>A call that releases the browser.\<close>

definition isRelease :: "call \<Rightarrow> bool" where
  "isRelease c \<longleftrightarrow> c = Disconnect \<or> c = Close"

text \<open>The errors a caller of the function can observe: the one its result carries.\<close>

definition observedErrors :: "(error + buffer) \<Rightarrow> error set" where
  "observedErrors res = (case res of Inl e \<Rightarrow> {e} | Inr b \<Rightarrow> {})"

text \<open>
  An environment with a WebSocket endpoint, and one with a local Chrome only.
\<close>

definition remoteEnvironment :: environment where
  "remoteEnvironment =
     \<lparr> BROWSER_WS_ENDPOINT = Some ''ws://browser:3000'', CHROME_PATH = None,
       existsSync = (\<lambda>p. False) \<rparr>"

definition localEnvironment :: environment where
  "localEnvironment =
     \<lparr> BROWSER_WS_ENDPOINT = None, CHROME_PATH = Some ''/opt/chrome'',
       existsSync = (\<lambda>p. p = ''/opt/chrome'') \<rparr>"

text \<open>An engine whose \<open>newPage\<close> and whose release both throw, and an engine that works.\<close>

definition failingEngine :: engine where
  "failingEngine =
     \<lparr> puppeteer_connect = (\<lambda>ws. None), puppeteer_launch = (\<lambda>p. None),
       browser_newPage = Some (EngineError ''newPage failed''),
       page_setContent = (\<lambda>html. None), page_pdf = (\<lambda>options. Inr []),
       browser_disconnect = Some (EngineError ''disconnect failed''),
       browser_close = Some (EngineError ''close failed'') \<rparr>"

definition workingEngine :: engine where
  "workingEngine =
     \<lparr> puppeteer_connect = (\<lambda>ws. None), puppeteer_launch = (\<lambda>p. None),
       browser_newPage = None,
       page_setContent = (\<lambda>html. None), page_pdf = (\<lambda>options. Inr [37, 80, 68, 70]),
       browser_disconnect = None, browser_close = None \<rparr>"

text \<open>The tree of the Markdown text \<open># Test\<close>, for a parser.\<close>

definition testParse :: "string \<Rightarrow> node" where
  "testParse markdown = parentNode ''root'' [headingNode 1 [textNode ''Test'']]"

section \<open>The renderer on untyped input\<close>

text \<open>
  The renderer takes its node as \<open>any\<close> and reads the style columns through \<open>as any\<close>,
  so it can be handed a rule whose style column is \<open>null\<close> or missing, or a node without
  the property it reads; a property read on \<open>null\<close> or \<open>undefined\<close>, and
  \<open>text.replace\<close> on an \<open>undefined\<close> text, throw a \<open>TypeError\<close>. This section models the
  renderer on such input, with the exception as a value: the style columns are any JSON
  value, or \<open>undefined\<close>, and the \<open>value\<close> and the \<open>url\<close> of a node may be absent. What
  stays typed: the children of a node are an array of nodes, and a \<open>value\<close>, \<open>url\<close> or
  \<open>alt\<close> that is present is a string.
\<close>

datatype renderError = TypeError

text \<open>\<open>v[k]\<close> on any value: it throws on \<open>null\<close> and \<open>undefined\<close>.\<close>

fun js_read :: "jsval \<Rightarrow> string \<Rightarrow> renderError + jsval" where
  "js_read JUndefined k = Inl TypeError"
| "js_read JNull k = Inl TypeError"
| "js_read (JObj m) k = Inr (js_lookup m k)"
| "js_read v k = Inr JUndefined"

text \<open>\<open>escapeHtml\<close> on a text that may be \<open>undefined\<close>.\<close>

definition escapeHtmlRaw :: "string option \<Rightarrow> renderError + string" where
  "escapeHtmlRaw text = (case text of None \<Rightarrow> Inl TypeError | Some t \<Rightarrow> Inr (escapeHtml t))"

text \<open>
  Sequencing: the continuation runs on a value, an exception is passed on. The pieces of a
  template literal, and the fragments of a \<open>forEach\<close> loop, are concatenated unless one of
  them throws. There is one exception value, so the order in which the pieces of one
  statement are evaluated does not show in the result.
\<close>

definition bindE :: "renderError + 'a \<Rightarrow> ('a \<Rightarrow> renderError + 'b) \<Rightarrow> renderError + 'b" where
  "bindE x f = (case x of Inl e \<Rightarrow> Inl e | Inr v \<Rightarrow> f v)"

fun concatResults :: "(renderError + string) list \<Rightarrow> renderError + string" where
  "concatResults [] = Inr []"
| "concatResults (p # ps) =
     (case p of Inl e \<Rightarrow> Inl e
      | Inr s \<Rightarrow> (case concatResults ps of Inl e \<Rightarrow> Inl e | Inr t \<Rightarrow> Inr (s @ t)))"

text \<open>\<open>${style.field || dflt}\<close> in a template literal.\<close>

definition styleText :: "jsval \<Rightarrow> string \<Rightarrow> jsval \<Rightarrow> renderError + string" where
  "styleText style f dflt = bindE (js_read style f) (\<lambda>v. Inr (js_toString (js_or v dflt)))"

datatype rawNode = RawNode
  (raw_type: string)
  (raw_children: "rawNode list option")
  (raw_value: "string option")
  (raw_depth: nat)
  (raw_ordered: bool)
  (raw_url: "string option")
  (raw_alt: "string option")

definition rawRoot :: "rawNode list option \<Rightarrow> rawNode" where
  "rawRoot cs = RawNode ''root'' cs None 0 False None None"

text \<open>A rule object as the renderer can be handed one: its style columns are any value.\<close>

record RawFormattingRule =
  raw_rule_id :: int
  raw_userId :: int
  raw_name :: string
  raw_description :: "string option"
  raw_fontFamily :: string
  raw_fontSize :: int
  raw_lineHeight :: string
  raw_headingStyles :: jsval
  raw_pageSize :: "string option"
  raw_marginTop :: int
  raw_marginBottom :: int
  raw_marginLeft :: int
  raw_marginRight :: int
  raw_headerText :: "string option"
  raw_footerText :: "string option"
  raw_codeBlockStyles :: jsval
  raw_tableStyles :: jsval
  raw_pageBreakBeforeHeadings :: string
  raw_preventOrphanHeadings :: int
  raw_keepCodeBlocksTogether :: int
  raw_isPreset :: int
  raw_createdAt :: nat
  raw_updatedAt :: nat

lemma bindE_cong [fundef_cong]:
  "x = y \<Longrightarrow> (\<And>v. y = Inr v \<Longrightarrow> f v = g v) \<Longrightarrow> bindE x f = bindE y g"
  by (simp add: bindE_def split: sum.splits)

lemma size_raw_child:
  assumes "raw_children n = Some cs" and "c \<in> set cs"
  shows "size c < size n"
proof -
  have "size c \<le> size_list size cs"
    using assms(2) by (rule size_list_estimation') simp
  with assms(1) show ?thesis
    by (cases n) simp
qed

lemma size_raw_grandchild:
  assumes "raw_children n = Some rows" and "row \<in> set rows"
    and "raw_children row = Some cells" and "cell \<in> set cells"
  shows "size cell < size n"
  using size_raw_child [OF assms(1,2)] size_raw_child [OF assms(3,4)] by simp

lemma size_rawRoot [simp]: "size (rawRoot (raw_children n)) = size n"
  by (cases n) (simp add: rawRoot_def)

lemma raw_type_rawRoot [simp]: "raw_type (rawRoot cs) = ''root''"
  by (simp add: rawRoot_def)

lemma raw_children_rawRoot [simp]: "raw_children (rawRoot cs) = cs"
  by (simp add: rawRoot_def)

text \<open>\<open>astToHtml\<close> once more, branch by branch, each read and each call able to throw.\<close>

function astToHtmlRaw :: "rawNode \<Rightarrow> RawFormattingRule \<Rightarrow> nat \<Rightarrow> renderError + string" where
  "astToHtmlRaw node rules depth =
    (if raw_type node = ''root'' then
       (case raw_children node of None \<Rightarrow> Inr []
        | Some cs \<Rightarrow> concatResults (map (\<lambda>child. astToHtmlRaw child rules depth) cs))
     else if raw_type node = ''heading'' then
       (let level = raw_depth node
        in bindE (js_read (raw_headingStyles rules) (''h'' @ show_nat level)) (\<lambda>style.
             (let headingStyle = js_or style (JObj Map.empty);
                  content = astToHtmlRaw (rawRoot (raw_children node)) rules depth
              in concatResults
                   [Inr (''<h''),
                    Inr (show_nat level),
                    Inr ('' style='' @ dq @ ''font-size: ''),
                    styleText headingStyle ''fontSize'' (JNum 16),
                    Inr (''px; font-weight: ''),
                    styleText headingStyle ''fontWeight'' (JNum 600),
                    Inr (''; margin-top: ''),
                    styleText headingStyle ''marginTop'' (JNum 12),
                    Inr (''px; margin-bottom: ''),
                    styleText headingStyle ''marginBottom'' (JNum 6),
                    Inr (''px;'' @ dq @ ''>''),
                    content,
                    Inr (''</h''),
                    Inr (show_nat level),
                    Inr (''>'')])))
     else if raw_type node = ''paragraph'' then
       (let content = astToHtmlRaw (rawRoot (raw_children node)) rules depth
        in concatResults
           [Inr (''<p style='' @ dq @ ''margin-bottom: 1em; line-height: ''),
            Inr (raw_lineHeight rules),
            Inr ('';'' @ dq @ ''>''),
            content,
            Inr (''</p>'')])
     else if raw_type node = ''text'' then
       escapeHtmlRaw (raw_value node)
     else if raw_type node = ''emphasis'' then
       (let content = astToHtmlRaw (rawRoot (raw_children node)) rules depth
        in concatResults
           [Inr (''<em>''),
            content,
            Inr (''</em>'')])
     else if raw_type node = ''strong'' then
       (let content = astToHtmlRaw (rawRoot (raw_children node)) rules depth
        in concatResults
           [Inr (''<strong>''),
            content,
            Inr (''</strong>'')])
     else if raw_type node = ''inlineCode'' then
       (let codeStyle = raw_codeBlockStyles rules
        in concatResults
           [Inr (''<code style='' @ dq @ ''font-family: ''),
            styleText codeStyle ''fontFamily'' (JStr ''monospace''),
            Inr (''; font-size: ''),
            styleText codeStyle ''fontSize'' (JNum 11),
            Inr (''px; background-color: ''),
            styleText codeStyle ''backgroundColor'' (JStr ''#f5f5f5''),
            Inr (''; padding: 2px 4px; border-radius: 3px;'' @ dq @ ''>''),
            escapeHtmlRaw (raw_value node),
            Inr (''</code>'')])
     else if raw_type node = ''code'' then
       (let codeStyle = raw_codeBlockStyles rules;
            content = escapeHtmlRaw (raw_value node)
        in concatResults
           [Inr (''<pre style='' @ dq @ ''font-family: ''),
            styleText codeStyle ''fontFamily'' (JStr ''monospace''),
            Inr (''; font-size: ''),
            styleText codeStyle ''fontSize'' (JNum 11),
            Inr (''px; background-color: ''),
            styleText codeStyle ''backgroundColor'' (JStr ''#f5f5f5''),
            Inr (''; padding: ''),
            styleText codeStyle ''padding'' (JNum 12),
            Inr (''px; border-radius: ''),
            styleText codeStyle ''borderRadius'' (JNum 4),
            Inr (''px; overflow-x: auto; line-height: ''),
            styleText codeStyle ''lineHeight'' (JDec ''1.4''),
            Inr ('';'' @ dq @ ''><code>''),
            content,
            Inr (''</code></pre>'')])
     else if raw_type node = ''list'' then
       (let tag = (if raw_ordered node then ''ol'' else ''ul'');
            content = astToHtmlRaw (rawRoot (raw_children node)) rules (depth + 1)
        in concatResults
           [Inr (''<''),
            Inr tag,
            Inr ('' style='' @ dq @ ''margin-left: ''),
            Inr (show_nat (20 + depth * 20)),
            Inr (''px; margin-bottom: 1em;'' @ dq @ ''>''),
            content,
            Inr (''</''),
            Inr tag,
            Inr (''>'')])
     else if raw_type node = ''listItem'' then
       (let content = astToHtmlRaw (rawRoot (raw_children node)) rules depth
        in concatResults
           [Inr (''<li>''),
            content,
            Inr (''</li>'')])
     else if raw_type node = ''blockquote'' then
       (let content = astToHtmlRaw (rawRoot (raw_children node)) rules depth
        in concatResults
           [Inr (''<blockquote style='' @ dq @ ''border-left: 4px solid #ccc; padding-left: 12px; margin-left: 0; font-style: italic; color: #666;'' @ dq @ ''>''),
            content,
            Inr (''</blockquote>'')])
     else if raw_type node = ''table'' then
       (let tableStyle = raw_tableStyles rules
        in concatResults
            [concatResults
             [Inr (''<table style='' @ dq @ ''border-collapse: collapse; width: 100%; margin-bottom: 1em; border: 1px solid ''),
              styleText tableStyle ''borderColor'' (JStr ''#ddd''),
              Inr ('';'' @ dq @ ''><tbody>'')],
             (case raw_children node of None \<Rightarrow> Inr []
              | Some rows \<Rightarrow> concatResults (map (\<lambda>(rowIndex, row).
                  (let isHeader = (rowIndex = 0 \<and> length rows > 1);
                       tag = (if isHeader then ''th'' else ''td'')
                   in concatResults
                       [concatResults
                        [Inr (''<tr style='' @ dq @ ''background-color: ''),
                         (if isHeader then styleText tableStyle ''headerBackgroundColor'' (JStr ''#f9f9f9'')
                           else Inr ''white''),
                         Inr ('';'' @ dq @ ''>'')],
                        (case raw_children row of None \<Rightarrow> Inr []
                         | Some cells \<Rightarrow> concatResults (map (\<lambda>cell.
                             (let cellContent =
                                    astToHtmlRaw (rawRoot (raw_children cell)) rules depth
                              in concatResults
                                 [Inr (''<''),
                                  Inr tag,
                                  Inr ('' style='' @ dq @ ''border: 1px solid ''),
                                  styleText tableStyle ''borderColor'' (JStr ''#ddd''),
                                  Inr (''; padding: ''),
                                  styleText tableStyle ''cellPadding'' (JNum 8),
                                  Inr (''px; font-size: ''),
                                  styleText tableStyle ''fontSize'' (JNum 11),
                                  Inr (''px;'' @ dq @ ''>''),
                                  cellContent,
                                  Inr (''</''),
                                  Inr tag,
                                  Inr (''>'')])) cells)),
                        Inr ''</tr>''])) (enumerate 0 rows))),
             Inr ''</tbody></table>''])
     else if raw_type node = ''link'' then
       (let content = astToHtmlRaw (rawRoot (raw_children node)) rules depth
        in concatResults
           [Inr (''<a href='' @ dq),
            escapeHtmlRaw (raw_url node),
            Inr (dq @ '' style='' @ dq @ ''color: #0066cc; text-decoration: underline;'' @ dq @ ''>''),
            content,
            Inr (''</a>'')])
     else if raw_type node = ''image'' then
       concatResults
       [Inr (''<img src='' @ dq),
        escapeHtmlRaw (raw_url node),
        Inr (dq @ '' alt='' @ dq),
        Inr (escapeHtml (case raw_alt node of None \<Rightarrow> [] | Some a \<Rightarrow> a)),
        Inr (dq @ '' style='' @ dq @ ''max-width: 100%; height: auto; margin: 1em 0;'' @ dq @ '' />'')]
     else if raw_type node = ''thematicBreak'' then
       concatResults
       [Inr (''<hr style='' @ dq @ ''border: none; border-top: 1px solid #ccc; margin: 2em 0;'' @ dq @ '' />'')]
     else
       (case raw_children node of None \<Rightarrow> Inr []
        | Some cs \<Rightarrow> concatResults (map (\<lambda>child. astToHtmlRaw child rules depth) cs)))"
  by pat_completeness auto

termination
proof (relation "measures [\<lambda>(n, r, d). size n,
                            \<lambda>(n, r, d). if raw_type n = ''root'' then 0 else 1]")
  show "wf (measures [\<lambda>(n, r, d). size n,
                      \<lambda>(n::rawNode, r::RawFormattingRule, d::nat).
                         if raw_type n = ''root'' then 0 else (1::nat)])"
    by simp
qed (auto dest!: in_enumerate_snd dest: size_raw_child size_raw_grandchild)

declare astToHtmlRaw.simps [simp del]

text \<open>
  The input on which no read throws: the three style columns are neither \<open>null\<close> nor
  missing, and in the tree every \<open>text\<close>, \<open>inlineCode\<close> and \<open>code\<close> node has a value and
  every \<open>link\<close> and \<open>image\<close> node has a URL, as the nodes of the parser have.
\<close>

definition readable :: "jsval \<Rightarrow> bool" where
  "readable v \<longleftrightarrow> v \<noteq> JNull \<and> v \<noteq> JUndefined"




text \<open>
  The typed reading of such input: a style column that is an object is its map, any other
  value that can be read has no field; an absent text is the empty text.
\<close>

definition typedStyles :: "jsval \<Rightarrow> (string \<rightharpoonup> jsval)" where
  "typedStyles v = (case v of JObj m \<Rightarrow> m | _ \<Rightarrow> Map.empty)"

definition typedRule :: "RawFormattingRule \<Rightarrow> FormattingRule" where
  "typedRule rules =
    \<lparr> rule_id = raw_rule_id rules, userId = raw_userId rules, name = raw_name rules,
      description = raw_description rules, fontFamily = raw_fontFamily rules,
      fontSize = raw_fontSize rules, lineHeight = raw_lineHeight rules,
      headingStyles = typedStyles (raw_headingStyles rules),
      pageSize = raw_pageSize rules, marginTop = raw_marginTop rules,
      marginBottom = raw_marginBottom rules, marginLeft = raw_marginLeft rules,
      marginRight = raw_marginRight rules, headerText = raw_headerText rules,
      footerText = raw_footerText rules,
      codeBlockStyles = typedStyles (raw_codeBlockStyles rules),
      tableStyles = typedStyles (raw_tableStyles rules),
      pageBreakBeforeHeadings = raw_pageBreakBeforeHeadings rules,
      preventOrphanHeadings = raw_preventOrphanHeadings rules,
      keepCodeBlocksTogether = raw_keepCodeBlocksTogether rules,
      isPreset = raw_isPreset rules, createdAt = raw_createdAt rules,
      updatedAt = raw_updatedAt rules \<rparr>"

primrec typedNode :: "rawNode \<Rightarrow> node" where
  "typedNode (RawNode t cs v d ord u a) =
     Node t (map_option (map typedNode) cs) (case v of None \<Rightarrow> [] | Some s \<Rightarrow> s) d ord
       (case u of None \<Rightarrow> [] | Some s \<Rightarrow> s) a"






section \<open>The heading element\<close>

text \<open>
  The heading element as the renderer emits it: \<open>font-size\<close>, \<open>margin-top\<close> and
  \<open>margin-bottom\<close> in px, \<open>font-weight\<close> as a number without unit.
\<close>

definition headingMarkup ::
  "nat \<Rightarrow> string \<Rightarrow> string \<Rightarrow> string \<Rightarrow> string \<Rightarrow> string \<Rightarrow> string" where
  "headingMarkup level fs fw mt mb content =
     ''<h'' @ show_nat level @ '' style='' @ dq @ ''font-size: '' @ fs
     @ ''px; font-weight: '' @ fw
     @ ''; margin-top: '' @ mt
     @ ''px; margin-bottom: '' @ mb
     @ ''px;'' @ dq @ ''>'' @ content @ ''</h'' @ show_nat level @ ''>''"

text \<open>The heading element with all four values in px, as the specification words it.\<close>

definition headingMarkupAllPx ::
  "nat \<Rightarrow> string \<Rightarrow> string \<Rightarrow> string \<Rightarrow> string \<Rightarrow> string \<Rightarrow> string" where
  "headingMarkupAllPx level fs fw mt mb content =
     ''<h'' @ show_nat level @ '' style='' @ dq @ ''font-size: '' @ fs
     @ ''px; font-weight: '' @ fw
     @ ''px; margin-top: '' @ mt
     @ ''px; margin-bottom: '' @ mb
     @ ''px;'' @ dq @ ''>'' @ content @ ''</h'' @ show_nat level @ ''>''"

text \<open>
  The text of one field of a style object that is present: the field's value, or the
  fixed default when the field is absent (or falsy).
\<close>

definition fieldText :: "(string \<rightharpoonup> jsval) \<Rightarrow> string \<Rightarrow> jsval \<Rightarrow> string" where
  "fieldText obj f dflt =
     (case obj f of None \<Rightarrow> js_toString dflt
      | Some v \<Rightarrow> if js_truthy v then js_toString v else js_toString dflt)"

section \<open>Tables and lists, as the specification words them\<close>

text \<open>
  The inline style every cell carries, a cell under a given tag, a row as a header row or
  as a data row, and the rows of a table: the first row is a header row only when there
  is more than one row.
\<close>

definition cellStyle :: "FormattingRule \<Rightarrow> string" where
  "cellStyle rules =
     ''border: 1px solid '' @ fieldText (tableStyles rules) ''borderColor'' (JStr ''#ddd'')
     @ ''; padding: '' @ fieldText (tableStyles rules) ''cellPadding'' (JNum 8)
     @ ''px; font-size: '' @ fieldText (tableStyles rules) ''fontSize'' (JNum 11)
     @ ''px;''"

definition cellMarkup :: "FormattingRule \<Rightarrow> nat \<Rightarrow> string \<Rightarrow> node \<Rightarrow> string" where
  "cellMarkup rules depth tag cell =
     ''<'' @ tag @ '' style='' @ dq @ cellStyle rules @ dq @ ''>''
     @ renderChildren (node_children cell) rules depth
     @ ''</'' @ tag @ ''>''"

definition cellsOf :: "node \<Rightarrow> node list" where
  "cellsOf row = (case node_children row of None \<Rightarrow> [] | Some cells \<Rightarrow> cells)"

definition rowMarkup :: "FormattingRule \<Rightarrow> nat \<Rightarrow> bool \<Rightarrow> node \<Rightarrow> string" where
  "rowMarkup rules depth header row =
     ''<tr style='' @ dq @ ''background-color: ''
     @ (if header then fieldText (tableStyles rules) ''headerBackgroundColor'' (JStr ''#f9f9f9'')
        else ''white'')
     @ '';'' @ dq @ ''>''
     @ concat (map (cellMarkup rules depth (if header then ''th'' else ''td'')) (cellsOf row))
     @ ''</tr>''"

fun tableRowsSpec :: "FormattingRule \<Rightarrow> nat \<Rightarrow> node list \<Rightarrow> string" where
  "tableRowsSpec rules depth [] = []"
| "tableRowsSpec rules depth [row] = rowMarkup rules depth False row"
| "tableRowsSpec rules depth (row # rest) =
     rowMarkup rules depth True row @ concat (map (rowMarkup rules depth False) rest)"

definition tableOpen :: "FormattingRule \<Rightarrow> string" where
  "tableOpen rules =
     ''<table style='' @ dq
     @ ''border-collapse: collapse; width: 100%; margin-bottom: 1em; border: 1px solid ''
     @ fieldText (tableStyles rules) ''borderColor'' (JStr ''#ddd'')
     @ '';'' @ dq @ ''><tbody>''"

definition rowsOf :: "node \<Rightarrow> node list" where
  "rowsOf n = (case node_children n of None \<Rightarrow> [] | Some rows \<Rightarrow> rows)"

text \<open>The list element: the tag by the ordered flag, the left margin in px.\<close>

definition listMarkup :: "bool \<Rightarrow> nat \<Rightarrow> string \<Rightarrow> string" where
  "listMarkup ordered margin content =
     ''<'' @ (if ordered then ''ol'' else ''ul'') @ '' style='' @ dq @ ''margin-left: ''
     @ show_nat margin @ ''px; margin-bottom: 1em;'' @ dq @ ''>''
     @ content
     @ ''</'' @ (if ordered then ''ol'' else ''ul'') @ ''>''"

section \<open>What the renderer reads of a rule\<close>

text \<open>
  The fields the renderer reads of a heading style object, of the code block styles and
  of the table styles, each with the default the source writes after \<open>||\<close>.
\<close>

definition headingFields :: "(string \<times> jsval) list" where
  "headingFields =
     [(''fontSize'', JNum 16), (''fontWeight'', JNum 600), (''marginTop'', JNum 12),
      (''marginBottom'', JNum 6)]"

definition codeFields :: "(string \<times> jsval) list" where
  "codeFields =
     [(''fontFamily'', JStr ''monospace''), (''fontSize'', JNum 11),
      (''backgroundColor'', JStr ''#f5f5f5''), (''padding'', JNum 12),
      (''borderRadius'', JNum 4), (''lineHeight'', JDec ''1.4'')]"

definition tableFields :: "(string \<times> jsval) list" where
  "tableFields =
     [(''borderColor'', JStr ''#ddd''), (''headerBackgroundColor'', JStr ''#f9f9f9''),
      (''cellPadding'', JNum 8), (''fontSize'', JNum 11)]"

text \<open>
  The renderer reads a rule through its line height and through the texts it prints for
  these fields; two rules that agree on them render every tree alike.
\<close>

definition headingFieldText :: "FormattingRule \<Rightarrow> nat \<Rightarrow> string \<Rightarrow> jsval \<Rightarrow> string" where
  "headingFieldText rules level f dflt =
     js_toString (js_or (js_get (headingStyleOf rules level) f) dflt)"

definition sameStyles :: "FormattingRule \<Rightarrow> FormattingRule \<Rightarrow> bool" where
  "sameStyles r1 r2 \<longleftrightarrow>
     lineHeight r1 = lineHeight r2
     \<and> (\<forall>L. \<forall>(f, dflt) \<in> set headingFields.
           headingFieldText r1 L f dflt = headingFieldText r2 L f dflt)
     \<and> (\<forall>(f, dflt) \<in> set codeFields.
           fieldText (codeBlockStyles r1) f dflt = fieldText (codeBlockStyles r2) f dflt)
     \<and> (\<forall>(f, dflt) \<in> set tableFields.
           fieldText (tableStyles r1) f dflt = fieldText (tableStyles r2) f dflt)"

section \<open>The parts of the document shell\<close>

text \<open>
  The template of \<open>generateStyledHtml\<close>, cut at its rules: the text before the style
  sheet, the rules of the style sheet in their order, and the text after it, which holds
  the body.
\<close>

definition headerRule :: "FormattingRule \<Rightarrow> string" where
  "headerRule rules =
     (case headerText rules of None \<Rightarrow> []
      | Some h \<Rightarrow> if h \<noteq> [] then ''@top-center { content: '' @ dq @ escapeHtml h @ dq @ ''; }'' else [])"

definition footerRule :: "FormattingRule \<Rightarrow> string" where
  "footerRule rules =
     (case footerText rules of None \<Rightarrow> []
      | Some f \<Rightarrow> if f \<noteq> [] then ''@bottom-center { content: '' @ dq @ escapeHtml f @ dq @ ''; }'' else [])"

definition breakBeforeH1 :: "FormattingRule \<Rightarrow> string" where
  "breakBeforeH1 rules =
     (if pageBreakBeforeHeadings rules = ''h1'' then ''h1 { page-break-before: always; }'' else [])"

definition breakBeforeH2 :: "FormattingRule \<Rightarrow> string" where
  "breakBeforeH2 rules =
     (if pageBreakBeforeHeadings rules = ''h2'' then ''h2 { page-break-before: always; }'' else [])"

definition orphanRule :: "FormattingRule \<Rightarrow> string" where
  "orphanRule rules =
     (if preventOrphanHeadings rules \<noteq> 0
      then ''h1, h2, h3 { page-break-after: avoid; orphans: 3; widows: 3; }'' else [])"

definition docOpen :: string where
  "docOpen =
     ''\<newline>''
     @ ''<!DOCTYPE html>\<newline>''
     @ ''<html lang='' @ dq @ ''en'' @ dq @ ''>\<newline>''
     @ ''<head>\<newline>''
     @ ''  <meta charset='' @ dq @ ''UTF-8'' @ dq @ ''>\<newline>''
     @ ''  <meta name='' @ dq @ ''viewport'' @ dq @ '' content='' @ dq @ ''width=device-width, initial-scale=1.0'' @ dq @ ''>\<newline>''
     @ ''  <title>PDF Document</title>\<newline>''
     @ ''  <style>\<newline>''"

definition resetRule :: string where
  "resetRule =
     ''    * {\<newline>''
     @ ''      margin: 0;\<newline>''
     @ ''      padding: 0;\<newline>''
     @ ''      box-sizing: border-box;\<newline>''
     @ ''    }\<newline>''
     @ ''\<newline>''"

definition pageRule :: "FormattingRule \<Rightarrow> string" where
  "pageRule rules =
     ''    @page {\<newline>''
     @ ''      size: ''
     @ (if pageSize rules = Some ''Letter'' then ''8.5in 11in'' else ''210mm 297mm'')
     @ '';\<newline>''
     @ ''      margin: ''
     @ show_int (marginTop rules) @ ''mm''
     @ '' ''
     @ show_int (marginRight rules) @ ''mm''
     @ '' ''
     @ show_int (marginBottom rules) @ ''mm''
     @ '' ''
     @ show_int (marginLeft rules) @ ''mm''
     @ '';\<newline>''
     @ ''      ''
     @ headerRule rules
     @ ''\<newline>''
     @ ''      ''
     @ footerRule rules
     @ ''\<newline>''
     @ ''    }\<newline>''
     @ ''\<newline>''"

definition bodyRule :: "FormattingRule \<Rightarrow> string" where
  "bodyRule rules =
     ''    body {\<newline>''
     @ ''      font-family: '' @ sq
     @ fontFamily rules
     @ sq @ '', sans-serif;\<newline>''
     @ ''      font-size: ''
     @ show_int (fontSize rules)
     @ ''px;\<newline>''
     @ ''      line-height: ''
     @ lineHeight rules
     @ '';\<newline>''
     @ ''      color: #333;\<newline>''
     @ ''    }\<newline>''
     @ ''\<newline>''"

definition headingsRule :: string where
  "headingsRule =
     ''    h1, h2, h3, h4, h5, h6 {\<newline>''
     @ ''      page-break-after: avoid;\<newline>''
     @ ''    }\<newline>''
     @ ''\<newline>''"

definition breakRules :: "FormattingRule \<Rightarrow> string" where
  "breakRules rules =
     ''    ''
     @ breakBeforeH1 rules
     @ ''\<newline>''
     @ ''    ''
     @ breakBeforeH2 rules
     @ ''\<newline>''
     @ ''\<newline>''
     @ ''    ''
     @ orphanRule rules
     @ ''\<newline>''
     @ ''\<newline>''"

definition fixedRules :: string where
  "fixedRules =
     ''    pre {\<newline>''
     @ ''      page-break-inside: avoid;\<newline>''
     @ ''    }\<newline>''
     @ ''\<newline>''
     @ ''    table {\<newline>''
     @ ''      page-break-inside: avoid;\<newline>''
     @ ''    }\<newline>''
     @ ''\<newline>''
     @ ''    img {\<newline>''
     @ ''      page-break-inside: avoid;\<newline>''
     @ ''    }\<newline>''
     @ ''\<newline>''
     @ ''    p {\<newline>''
     @ ''      margin-bottom: 1em;\<newline>''
     @ ''    }\<newline>''
     @ ''\<newline>''
     @ ''    ul, ol {\<newline>''
     @ ''      margin-left: 20px;\<newline>''
     @ ''      margin-bottom: 1em;\<newline>''
     @ ''    }\<newline>''
     @ ''\<newline>''
     @ ''    blockquote {\<newline>''
     @ ''      border-left: 4px solid #ccc;\<newline>''
     @ ''      padding-left: 12px;\<newline>''
     @ ''      margin-left: 0;\<newline>''
     @ ''      font-style: italic;\<newline>''
     @ ''      color: #666;\<newline>''
     @ ''      margin-bottom: 1em;\<newline>''
     @ ''    }\<newline>''
     @ ''\<newline>''
     @ ''    code {\<newline>''
     @ ''      font-family: '' @ sq @ ''Courier New'' @ sq @ '', monospace;\<newline>''
     @ ''      background-color: #f5f5f5;\<newline>''
     @ ''      padding: 2px 4px;\<newline>''
     @ ''      border-radius: 3px;\<newline>''
     @ ''    }\<newline>''
     @ ''\<newline>''
     @ ''    pre code {\<newline>''
     @ ''      padding: 0;\<newline>''
     @ ''      background-color: transparent;\<newline>''
     @ ''    }\<newline>''"

definition docClose :: "string \<Rightarrow> string" where
  "docClose content =
     ''  </style>\<newline>''
     @ ''</head>\<newline>''
     @ ''<body>\<newline>''
     @ ''  ''
     @ content
     @ ''\<newline>''
     @ ''</body>\<newline>''
     @ ''</html>\<newline>''
     @ ''  ''"

definition styleSheet :: "FormattingRule \<Rightarrow> string" where
  "styleSheet rules =
     resetRule @ pageRule rules @ bodyRule rules @ headingsRule @ breakRules rules @ fixedRules"

text \<open>
  The head of an \<open>@page\<close> rule: its size, and its margin in the order top, right, bottom,
  left of the shorthand, each in mm.
\<close>

definition pageRuleHead :: "string \<Rightarrow> int \<Rightarrow> int \<Rightarrow> int \<Rightarrow> int \<Rightarrow> string" where
  "pageRuleHead sz mt mr mb ml =
     ''@page {\<newline>''
     @ ''      size: '' @ sz @ '';\<newline>''
     @ ''      margin: '' @ show_int mt @ ''mm '' @ show_int mr @ ''mm ''
     @ show_int mb @ ''mm '' @ show_int ml @ ''mm;''"

section \<open>Properties of the escaper\<close>





section \<open>Occurrences of a text around a given character\<close>

text \<open>
  To decide whether a text of the form \<open>pre @ c # post\<close> occurs in a long text, it
  suffices to look at the occurrences of the character \<open>c\<close>: \<open>occurs\<close> scans the text,
  holding the reversed text already read, and tests both sides at each \<open>c\<close>. A part of
  the text in which no \<open>c\<close> is followed by \<open>post\<close>, whatever follows the part
  (\<open>skippable\<close>), can be skipped.
\<close>

fun occurs :: "'a list \<Rightarrow> 'a \<Rightarrow> 'a list \<Rightarrow> 'a list \<Rightarrow> 'a list \<Rightarrow> bool" where
  "occurs rpre c post acc [] = False"
| "occurs rpre c post acc (x # t) =
     ((x = c \<and> prefix rpre acc \<and> prefix post t) \<or> occurs rpre c post (x # acc) t)"

definition skippable :: "'a \<Rightarrow> 'a list \<Rightarrow> 'a list \<Rightarrow> bool" where
  "skippable c post a \<longleftrightarrow> (\<forall>u v t. a = u @ c # v \<longrightarrow> \<not> prefix post (v @ t))"

section \<open>The rules of the pagination policy in the style sheet\<close>

text \<open>The opening brace, and the numbers and escaped texts, which hold none.\<close>

abbreviation (input) brace :: char where
  "brace \<equiv> CHR ''{''"

text \<open>
  The free texts a rule contributes to the style sheet (the font family, the line height,
  the header and footer texts) hold no opening brace.
\<close>

definition plainStyleTexts :: "FormattingRule \<Rightarrow> bool" where
  "plainStyleTexts r \<longleftrightarrow>
     brace \<notin> set (fontFamily r) \<and> brace \<notin> set (lineHeight r)
     \<and> brace \<notin> set (case headerText r of None \<Rightarrow> [] | Some h \<Rightarrow> h)
     \<and> brace \<notin> set (case footerText r of None \<Rightarrow> [] | Some f \<Rightarrow> f)"

text \<open>
  A rule whose font family closes the \<open>body\<close> rule and opens rules of its own; its policy
  asks for no page break.
\<close>

definition injectedRule :: FormattingRule where
  "injectedRule =
     mockFormattingRule
       \<lparr> fontFamily := ''x'' @ sq @ ''; } h1 { page-break-before: always; } body { font-family: ''
            @ sq @ ''y'',
         pageBreakBeforeHeadings := ''none'' \<rparr>"

section \<open>The renderer on untyped input and the typed renderer\<close>

text \<open>The fragment of the children of an untyped node, when no child throws.\<close>

definition rawChildren ::
  "rawNode list option \<Rightarrow> RawFormattingRule \<Rightarrow> nat \<Rightarrow> renderError + string" where
  "rawChildren cs rules depth =
     (case cs of None \<Rightarrow> Inr []
      | Some xs \<Rightarrow> concatResults (map (\<lambda>child. astToHtmlRaw child rules depth) xs))"



chapter \<open>Lemmas\<close>

section \<open>JavaScript values of the style objects\<close>

text \<open>Evaluation on numerals.\<close>

lemma show_nat_numeral [simp]:
  "show_nat (numeral k) =
     (if numeral k < (10::nat) then [''0123456789'' ! numeral k]
      else show_nat (numeral k div 10) @ [''0123456789'' ! (numeral k mod 10)])"
  by (rule show_nat.simps)

lemma show_nat_0 [simp]: "show_nat 0 = ''0''"
  by (simp add: show_nat.simps [of 0])

lemma show_nat_1 [simp]: "show_nat 1 = ''1''" "show_nat (Suc 0) = ''1''"
  by (simp_all add: show_nat.simps [of 1] show_nat.simps [of "Suc 0"])

lemma show_int_numeral [simp]:
  "show_int (numeral k) = show_nat (numeral k)"
  "show_int (- numeral k) = ''-'' @ show_nat (numeral k)"
  "show_int 0 = ''0''"
  "show_int 1 = ''1''"
  by (simp_all add: show_int_def)

section \<open>The renderer, kind by kind\<close>

lemma renderChildren_None [simp]: "renderChildren None r d = []"
  by (simp add: renderChildren_def)

lemma renderChildren_Nil [simp]: "renderChildren (Some []) r d = []"
  by (simp add: renderChildren_def)

lemma renderChildren_Cons [simp]:
  "renderChildren (Some (c # cs)) r d = astToHtml c r d @ renderChildren (Some cs) r d"
  by (simp add: renderChildren_def)

lemma renderChildren_cong:
  assumes "\<And>cs c. x = Some cs \<Longrightarrow> c \<in> set cs \<Longrightarrow> astToHtml c r1 d1 = astToHtml c r2 d2"
  shows "renderChildren x r1 d1 = renderChildren x r2 d2"
proof (cases x)
  case None
  then show ?thesis by simp
next
  case (Some cs)
  have eq: "map (\<lambda>c. astToHtml c r1 d1) cs = map (\<lambda>c. astToHtml c r2 d2) cs"
    by (rule map_cong [OF refl]) (rule assms [OF Some])
  show ?thesis by (simp add: renderChildren_def Some eq)
qed

lemma astToHtml_root:
  "node_type n = ''root'' \<Longrightarrow> astToHtml n r d = renderChildren (node_children n) r d"
  by (subst astToHtml.simps) (simp add: renderChildren_def)

lemma astToHtml_root_node [simp]:
  "astToHtml (root_node cs) r d = renderChildren cs r d"
  by (simp add: astToHtml_root)

lemma astToHtml_heading:
  "node_type n = ''heading'' \<Longrightarrow> astToHtml n r d =
     ''<h''
     @ show_nat (node_depth n)
     @ '' style='' @ dq @ ''font-size: ''
     @ js_toString (js_or (js_get (headingStyleOf r (node_depth n)) ''fontSize'') (JNum 16))
     @ ''px; font-weight: ''
     @ js_toString (js_or (js_get (headingStyleOf r (node_depth n)) ''fontWeight'') (JNum 600))
     @ ''; margin-top: ''
     @ js_toString (js_or (js_get (headingStyleOf r (node_depth n)) ''marginTop'') (JNum 12))
     @ ''px; margin-bottom: ''
     @ js_toString (js_or (js_get (headingStyleOf r (node_depth n)) ''marginBottom'') (JNum 6))
     @ ''px;'' @ dq @ ''>''
     @ renderChildren (node_children n) r d
     @ ''</h''
     @ show_nat (node_depth n)
     @ ''>''"
  by (subst astToHtml.simps) (simp add: Let_def headingStyleOf_def)

lemma astToHtml_paragraph:
  "node_type n = ''paragraph'' \<Longrightarrow> astToHtml n r d =
     ''<p style='' @ dq @ ''margin-bottom: 1em; line-height: ''
     @ lineHeight r
     @ '';'' @ dq @ ''>''
     @ renderChildren (node_children n) r d
     @ ''</p>''"
  by (subst astToHtml.simps) (simp add: Let_def)

lemma astToHtml_text:
  "node_type n = ''text'' \<Longrightarrow> astToHtml n r d = escapeHtml (node_value n)"
  by (subst astToHtml.simps) simp

lemma astToHtml_emphasis:
  "node_type n = ''emphasis'' \<Longrightarrow> astToHtml n r d =
     ''<em>''
     @ renderChildren (node_children n) r d
     @ ''</em>''"
  by (subst astToHtml.simps) (simp add: Let_def)

lemma astToHtml_strong:
  "node_type n = ''strong'' \<Longrightarrow> astToHtml n r d =
     ''<strong>''
     @ renderChildren (node_children n) r d
     @ ''</strong>''"
  by (subst astToHtml.simps) (simp add: Let_def)

lemma astToHtml_inlineCode:
  "node_type n = ''inlineCode'' \<Longrightarrow> astToHtml n r d =
     ''<code style='' @ dq @ ''font-family: ''
     @ js_toString (js_or (js_lookup (codeBlockStyles r) ''fontFamily'') (JStr ''monospace''))
     @ ''; font-size: ''
     @ js_toString (js_or (js_lookup (codeBlockStyles r) ''fontSize'') (JNum 11))
     @ ''px; background-color: ''
     @ js_toString (js_or (js_lookup (codeBlockStyles r) ''backgroundColor'') (JStr ''#f5f5f5''))
     @ ''; padding: 2px 4px; border-radius: 3px;'' @ dq @ ''>''
     @ escapeHtml (node_value n)
     @ ''</code>''"
  by (subst astToHtml.simps) (simp add: Let_def)

lemma astToHtml_code:
  "node_type n = ''code'' \<Longrightarrow> astToHtml n r d =
     ''<pre style='' @ dq @ ''font-family: ''
     @ js_toString (js_or (js_lookup (codeBlockStyles r) ''fontFamily'') (JStr ''monospace''))
     @ ''; font-size: ''
     @ js_toString (js_or (js_lookup (codeBlockStyles r) ''fontSize'') (JNum 11))
     @ ''px; background-color: ''
     @ js_toString (js_or (js_lookup (codeBlockStyles r) ''backgroundColor'') (JStr ''#f5f5f5''))
     @ ''; padding: ''
     @ js_toString (js_or (js_lookup (codeBlockStyles r) ''padding'') (JNum 12))
     @ ''px; border-radius: ''
     @ js_toString (js_or (js_lookup (codeBlockStyles r) ''borderRadius'') (JNum 4))
     @ ''px; overflow-x: auto; line-height: ''
     @ js_toString (js_or (js_lookup (codeBlockStyles r) ''lineHeight'') (JDec ''1.4''))
     @ '';'' @ dq @ ''><code>''
     @ escapeHtml (node_value n)
     @ ''</code></pre>''"
  by (subst astToHtml.simps) (simp add: Let_def)

lemma astToHtml_list:
  "node_type n = ''list'' \<Longrightarrow> astToHtml n r d =
     ''<''
     @ (if node_ordered n then ''ol'' else ''ul'')
     @ '' style='' @ dq @ ''margin-left: ''
     @ show_nat (20 + d * 20)
     @ ''px; margin-bottom: 1em;'' @ dq @ ''>''
     @ renderChildren (node_children n) r (d + 1)
     @ ''</''
     @ (if node_ordered n then ''ol'' else ''ul'')
     @ ''>''"
  by (subst astToHtml.simps) (simp add: Let_def)

lemma astToHtml_listItem:
  "node_type n = ''listItem'' \<Longrightarrow> astToHtml n r d =
     ''<li>''
     @ renderChildren (node_children n) r d
     @ ''</li>''"
  by (subst astToHtml.simps) (simp add: Let_def)

lemma astToHtml_blockquote:
  "node_type n = ''blockquote'' \<Longrightarrow> astToHtml n r d =
     ''<blockquote style='' @ dq @ ''border-left: 4px solid #ccc; padding-left: 12px; margin-left: 0; font-style: italic; color: #666;'' @ dq @ ''>''
     @ renderChildren (node_children n) r d
     @ ''</blockquote>''"
  by (subst astToHtml.simps) (simp add: Let_def)

lemma astToHtml_link:
  "node_type n = ''link'' \<Longrightarrow> astToHtml n r d =
     ''<a href='' @ dq
     @ escapeHtml (node_url n)
     @ dq @ '' style='' @ dq @ ''color: #0066cc; text-decoration: underline;'' @ dq @ ''>''
     @ renderChildren (node_children n) r d
     @ ''</a>''"
  by (subst astToHtml.simps) (simp add: Let_def)

lemma astToHtml_image:
  "node_type n = ''image'' \<Longrightarrow> astToHtml n r d =
     ''<img src='' @ dq
     @ escapeHtml (node_url n)
     @ dq @ '' alt='' @ dq
     @ escapeHtml (case node_alt n of None \<Rightarrow> [] | Some a \<Rightarrow> a)
     @ dq @ '' style='' @ dq @ ''max-width: 100%; height: auto; margin: 1em 0;'' @ dq @ '' />''"
  by (subst astToHtml.simps) (simp add: Let_def)

lemma astToHtml_thematicBreak:
  "node_type n = ''thematicBreak'' \<Longrightarrow> astToHtml n r d =
     ''<hr style='' @ dq @ ''border: none; border-top: 1px solid #ccc; margin: 2em 0;'' @ dq @ '' />''"
  by (subst astToHtml.simps) (simp add: Let_def)

lemma astToHtml_table:
  "node_type n = ''table'' \<Longrightarrow> astToHtml n r d =
     ''<table style='' @ dq @ ''border-collapse: collapse; width: 100%; margin-bottom: 1em; border: 1px solid ''
     @ js_toString (js_or (js_lookup (tableStyles r) ''borderColor'') (JStr ''#ddd''))
     @ '';'' @ dq @ ''><tbody>''
     @ (case node_children n of None \<Rightarrow> []
        | Some rows \<Rightarrow> concat (map (tableRow r d (length rows)) (enumerate 0 rows)))
     @ ''</tbody></table>''"
  by (subst astToHtml.simps)
     (simp add: Let_def tableRow_def [abs_def] tableCell_def [abs_def]
        cong: option.case_cong)

lemma astToHtml_unknown:
  "node_type n \<notin> set knownKinds \<Longrightarrow> astToHtml n r d = renderChildren (node_children n) r d"
  by (subst astToHtml.simps) (simp add: renderChildren_def knownKinds_def)

section \<open>The heading element\<close>

lemma js_or_lookup: "js_toString (js_or (js_lookup obj f) dflt) = fieldText obj f dflt"
  by (simp add: js_or_def js_lookup_def fieldText_def split: option.splits)

lemma fieldText_empty [simp]: "fieldText Map.empty f dflt = js_toString dflt"
  by (simp add: fieldText_def)

lemma headingStyleOf_None:
  "headingStyles r (''h'' @ show_nat L) = None \<Longrightarrow> headingStyleOf r L = JObj Map.empty"
  by (simp add: headingStyleOf_def js_lookup_def js_or_def)

lemma headingStyleOf_obj:
  "headingStyles r (''h'' @ show_nat L) = Some (JObj obj) \<Longrightarrow> headingStyleOf r L = JObj obj"
  by (simp add: headingStyleOf_def js_lookup_def js_or_def)

lemma heading_of_obj:
  assumes "node_type n = ''heading''" and "headingStyleOf r (node_depth n) = JObj obj"
  shows "astToHtml n r d =
     headingMarkup (node_depth n) (fieldText obj ''fontSize'' (JNum 16))
       (fieldText obj ''fontWeight'' (JNum 600))
       (fieldText obj ''marginTop'' (JNum 12))
       (fieldText obj ''marginBottom'' (JNum 6))
       (renderChildren (node_children n) r d)"
  using assms by (simp add: astToHtml_heading headingMarkup_def js_or_lookup)

section \<open>Tables and lists, as the specification words them\<close>

lemma tableCell_markup: "tableCell r d tag cell = cellMarkup r d tag cell"
  by (simp add: tableCell_def cellMarkup_def cellStyle_def js_or_lookup)

lemma tableRow_markup:
  "tableRow r d nrows (i, row) = rowMarkup r d (i = 0 \<and> 1 < nrows) row"
  by (simp add: tableRow_def rowMarkup_def cellsOf_def Let_def js_or_lookup
        tableCell_markup [abs_def] split: option.splits)

lemma data_rows:
  "concat (map (tableRow r d nrows) (enumerate (Suc i) rows)) =
   concat (map (rowMarkup r d False) rows)"
  by (induction rows arbitrary: i) (simp_all add: tableRow_markup)

lemma table_rows_spec:
  "concat (map (tableRow r d (length rows)) (enumerate 0 rows)) = tableRowsSpec r d rows"
proof (cases rows)
  case Nil
  then show ?thesis by simp
next
  case (Cons row rest)
  then show ?thesis
    by (cases rest) (simp_all add: tableRow_markup data_rows)
qed

lemma table_rows_index:
  "concat (map (tableRow r d k) (enumerate i rows)) =
   concat (map (\<lambda>j. rowMarkup r d (i + j = 0 \<and> 1 < k) (rows ! j)) [0..<length rows])"
proof -
  have "map (tableRow r d k) (enumerate i rows) =
        map (\<lambda>j. rowMarkup r d (i + j = 0 \<and> 1 < k) (rows ! j)) [0..<length rows]"
    by (rule nth_equalityI) (simp_all add: nth_enumerate_eq tableRow_markup)
  then show ?thesis by simp
qed

lemma astToHtml_table_rows:
  "node_type n = ''table'' \<Longrightarrow> astToHtml n r d =
     tableOpen r
     @ concat (map (tableRow r d (length (rowsOf n))) (enumerate 0 (rowsOf n)))
     @ ''</tbody></table>''"
  by (simp add: astToHtml_table tableOpen_def rowsOf_def js_or_lookup split: option.splits)

section \<open>What the renderer reads of a rule\<close>

lemma astToHtml_cong:
  assumes "sameStyles r1 r2"
  shows "astToHtml n r1 d = astToHtml n r2 d"
proof (induction n arbitrary: d rule: measure_induct_rule [of size])
  case (less n)
  from assms have lh: "lineHeight r1 = lineHeight r2"
    and hd: "\<And>L f dflt. (f, dflt) \<in> set headingFields \<Longrightarrow>
           headingFieldText r1 L f dflt = headingFieldText r2 L f dflt"
    and cd: "\<And>f dflt. (f, dflt) \<in> set codeFields \<Longrightarrow>
           fieldText (codeBlockStyles r1) f dflt = fieldText (codeBlockStyles r2) f dflt"
    and tb: "\<And>f dflt. (f, dflt) \<in> set tableFields \<Longrightarrow>
           fieldText (tableStyles r1) f dflt = fieldText (tableStyles r2) f dflt"
    by (auto simp: sameStyles_def)
  have kids: "renderChildren (node_children m) r1 e = renderChildren (node_children m) r2 e"
    if "size m \<le> size n" for m e
  proof (rule renderChildren_cong)
    fix cs c
    assume "node_children m = Some cs" and "c \<in> set cs"
    then have "size c < size m" by (rule size_child)
    with that have "size c < size n" by simp
    then show "astToHtml c r1 e = astToHtml c r2 e" by (rule less.IH)
  qed
  note kid = kids [OF order_refl]
  note hd' = hd [unfolded headingFieldText_def headingFields_def, simplified]
  note cd' = cd [unfolded codeFields_def, simplified]
  note tb' = tb [unfolded tableFields_def, simplified]
  consider (k_root) "node_type n = ''root''" | (k_heading) "node_type n = ''heading''"
    | (k_paragraph) "node_type n = ''paragraph''" | (k_text) "node_type n = ''text''"
    | (k_emphasis) "node_type n = ''emphasis''" | (k_strong) "node_type n = ''strong''"
    | (k_inlineCode) "node_type n = ''inlineCode''" | (k_code) "node_type n = ''code''"
    | (k_list) "node_type n = ''list''" | (k_listItem) "node_type n = ''listItem''"
    | (k_blockquote) "node_type n = ''blockquote''" | (k_table) "node_type n = ''table''"
    | (k_link) "node_type n = ''link''" | (k_image) "node_type n = ''image''"
    | (k_thematicBreak) "node_type n = ''thematicBreak''"
    | (k_unknown) "node_type n \<notin> set knownKinds"
    by (auto simp: knownKinds_def)
  then show ?case
  proof cases
    case k_root
    then show ?thesis by (simp add: astToHtml_root kid)
  next
    case k_heading
    then show ?thesis by (simp add: astToHtml_heading kid hd')
  next
    case k_paragraph
    then show ?thesis by (simp add: astToHtml_paragraph kid lh)
  next
    case k_text
    then show ?thesis by (simp add: astToHtml_text)
  next
    case k_emphasis
    then show ?thesis by (simp add: astToHtml_emphasis kid)
  next
    case k_strong
    then show ?thesis by (simp add: astToHtml_strong kid)
  next
    case k_inlineCode
    then show ?thesis by (simp add: astToHtml_inlineCode js_or_lookup cd')
  next
    case k_code
    then show ?thesis by (simp add: astToHtml_code js_or_lookup cd')
  next
    case k_list
    then show ?thesis by (simp add: astToHtml_list kid)
  next
    case k_listItem
    then show ?thesis by (simp add: astToHtml_listItem kid)
  next
    case k_blockquote
    then show ?thesis by (simp add: astToHtml_blockquote kid)
  next
    case k_table
    have cell: "cellMarkup r1 d tag c = cellMarkup r2 d tag c"
      if "row \<in> set (rowsOf n)" and "c \<in> set (cellsOf row)" for row c tag
    proof -
      from that have "size c < size n"
        by (auto simp: rowsOf_def cellsOf_def split: option.splits
            intro: size_grandchild [OF sym _ sym])
      then show ?thesis
        by (simp add: cellMarkup_def cellStyle_def tb' kids)
    qed
    have row: "rowMarkup r1 d h row = rowMarkup r2 d h row" if "row \<in> set (rowsOf n)" for row h
    proof -
      have cells:
        "map (cellMarkup r1 d tag) (cellsOf row) = map (cellMarkup r2 d tag) (cellsOf row)"
        for tag
        by (rule map_cong [OF refl]) (rule cell [OF that])
      show ?thesis by (simp add: rowMarkup_def tb' cells)
    qed
    have rows: "map (tableRow r1 d k) (enumerate 0 (rowsOf n)) =
          map (tableRow r2 d k) (enumerate 0 (rowsOf n))" for k
    proof (rule map_cong [OF refl])
      fix p
      assume "p \<in> set (enumerate 0 (rowsOf n))"
      then have "snd p \<in> set (rowsOf n)" by (rule in_enumerate_snd)
      then show "tableRow r1 d k p = tableRow r2 d k p"
        by (cases p) (simp add: tableRow_markup row)
    qed
    from k_table show ?thesis
      by (simp add: astToHtml_table_rows tableOpen_def tb' rows)
  next
    case k_link
    then show ?thesis by (simp add: astToHtml_link kid)
  next
    case k_image
    then show ?thesis by (simp add: astToHtml_image)
  next
    case k_thematicBreak
    then show ?thesis by (simp add: astToHtml_thematicBreak)
  next
    case k_unknown
    then show ?thesis by (simp add: astToHtml_unknown kid)
  qed
qed

text \<open>A falsy value of a field prints as the default does, as the absent field.\<close>

lemma fieldText_falsy:
  "\<not> js_truthy v \<Longrightarrow> fieldText (obj(f \<mapsto> v)) g dflt = fieldText (obj(f := None)) g dflt"
  by (simp add: fieldText_def)

lemma headingStyleOf_upd:
  "headingStyleOf (r\<lparr>headingStyles := (headingStyles r)(k \<mapsto> JObj obj)\<rparr>) L =
     (if ''h'' @ show_nat L = k then JObj obj else headingStyleOf r L)"
  by (simp add: headingStyleOf_def js_lookup_def js_or_def)

lemma fieldText_upd_other:
  "g \<noteq> f \<Longrightarrow> fieldText (obj(f := x)) g dflt = fieldText obj g dflt"
  by (simp add: fieldText_def)

lemma fieldText_upd_falsy:
  "\<not> js_truthy v \<Longrightarrow> fieldText (obj(f \<mapsto> v)) f dflt = js_toString dflt"
  by (simp add: fieldText_def)

lemma fieldText_upd_default:
  "fieldText (obj(f \<mapsto> dflt)) f dflt = js_toString dflt"
  by (simp add: fieldText_def)

lemma fieldText_upd_absent:
  "fieldText (obj(f := None)) f dflt = js_toString dflt"
  by (simp add: fieldText_def)

text \<open>Two updates of one field that print the same text for it.\<close>

lemma sameStyles_code:
  assumes "\<And>dflt. (f, dflt) \<in> set codeFields \<Longrightarrow> fieldText (obj(f := x)) f dflt = fieldText (obj(f := y)) f dflt"
  shows "sameStyles (r\<lparr>codeBlockStyles := obj(f := x)\<rparr>) (r\<lparr>codeBlockStyles := obj(f := y)\<rparr>)"
proof -
  have "fieldText (obj(f := x)) g dflt = fieldText (obj(f := y)) g dflt"
    if "(g, dflt) \<in> set codeFields" for g dflt
    using that assms by (cases "g = f") (simp_all add: fieldText_upd_other)
  then show ?thesis
    by (auto simp: sameStyles_def headingFieldText_def headingStyleOf_def)
qed

lemma sameStyles_table:
  assumes "\<And>dflt. (f, dflt) \<in> set tableFields \<Longrightarrow> fieldText (obj(f := x)) f dflt = fieldText (obj(f := y)) f dflt"
  shows "sameStyles (r\<lparr>tableStyles := obj(f := x)\<rparr>) (r\<lparr>tableStyles := obj(f := y)\<rparr>)"
proof -
  have "fieldText (obj(f := x)) g dflt = fieldText (obj(f := y)) g dflt"
    if "(g, dflt) \<in> set tableFields" for g dflt
    using that assms by (cases "g = f") (simp_all add: fieldText_upd_other)
  then show ?thesis
    by (auto simp: sameStyles_def headingFieldText_def headingStyleOf_def)
qed

lemma headingFieldText_upd:
  "headingFieldText (r\<lparr>headingStyles := hs(k \<mapsto> JObj obj)\<rparr>) L g dflt =
     (if ''h'' @ show_nat L = k then fieldText obj g dflt
      else headingFieldText (r\<lparr>headingStyles := hs\<rparr>) L g dflt)"
  by (simp add: headingFieldText_def headingStyleOf_def js_lookup_def js_or_def js_or_lookup [unfolded js_or_def js_lookup_def]
      fieldText_def split: option.splits)

lemma sameStyles_heading:
  assumes "\<And>dflt. (f, dflt) \<in> set headingFields \<Longrightarrow> fieldText (obj(f := x)) f dflt = fieldText (obj(f := y)) f dflt"
  shows "sameStyles (r\<lparr>headingStyles := hs(k \<mapsto> JObj (obj(f := x)))\<rparr>)
           (r\<lparr>headingStyles := hs(k \<mapsto> JObj (obj(f := y)))\<rparr>)"
proof -
  have "fieldText (obj(f := x)) g dflt = fieldText (obj(f := y)) g dflt"
    if "(g, dflt) \<in> set headingFields" for g dflt
    using that assms by (cases "g = f") (simp_all add: fieldText_upd_other)
  then show ?thesis
    by (auto simp: sameStyles_def headingFieldText_upd)
qed

section \<open>The parts of the document shell\<close>

lemma generateStyledHtml_parts:
  "generateStyledHtml content rules = docOpen @ styleSheet rules @ docClose content"
  by (simp add: generateStyledHtml_def styleSheet_def docOpen_def resetRule_def pageRule_def
        bodyRule_def headingsRule_def breakRules_def fixedRules_def docClose_def headerRule_def
        footerRule_def breakBeforeH1_def breakBeforeH2_def orphanRule_def Let_def
        split: option.splits)

lemma prefix_sublist: "prefix (pre @ xs) ys \<Longrightarrow> sublist xs ys"
  by (auto simp: prefix_def sublist_def)

lemma page_rule_prefix:
  "prefix (docOpen @ resetRule @ ''    ''
           @ pageRuleHead (if pageSize r = Some ''Letter'' then ''8.5in 11in'' else ''210mm 297mm'')
               (marginTop r) (marginRight r) (marginBottom r) (marginLeft r))
     (generateStyledHtml content r)"
  by (simp add: generateStyledHtml_parts styleSheet_def pageRule_def pageRuleHead_def)

lemma pageRule_alt:
  "pageRule r =
     ''    ''
     @ pageRuleHead (if pageSize r = Some ''Letter'' then ''8.5in 11in'' else ''210mm 297mm'')
         (marginTop r) (marginRight r) (marginBottom r) (marginLeft r)
     @ ''\<newline>      '' @ headerRule r
     @ ''\<newline>      '' @ footerRule r
     @ ''\<newline>    }\<newline>\<newline>''"
  by (simp add: pageRule_def pageRuleHead_def)



lemma field_default_unique:
  "(f, a) \<in> set headingFields \<Longrightarrow> (f, b) \<in> set headingFields \<Longrightarrow> a = b"
  "(f, a) \<in> set codeFields \<Longrightarrow> (f, b) \<in> set codeFields \<Longrightarrow> a = b"
  "(f, a) \<in> set tableFields \<Longrightarrow> (f, b) \<in> set tableFields \<Longrightarrow> a = b"
  by (auto simp: headingFields_def codeFields_def tableFields_def)




section \<open>Properties of the escaper\<close>

lemma escapeHtml_Nil [simp]: "escapeHtml [] = []"
  by (simp add: escapeHtml_def)

lemma escapeHtml_Cons: "escapeHtml (c # s) = escapeChar c @ escapeHtml s"
  by (simp add: escapeHtml_def)

lemma escapeHtml_append: "escapeHtml (s @ t) = escapeHtml s @ escapeHtml t"
  by (simp add: escapeHtml_def)






section \<open>Calls of the pipeline\<close>

lemma tryBlock_no_release: "c \<in> set (snd (tryBlock eng html rules)) \<Longrightarrow> \<not> isRelease c"
  by (auto simp: tryBlock_def isRelease_def Let_def split: option.splits)

lemma acquireBrowser_calls:
  "fst (acquireBrowser env eng) = None \<Longrightarrow>
     (truthyString (BROWSER_WS_ENDPOINT env) \<and>
        (\<exists>ws. snd (acquireBrowser env eng) = [Connect ws])) \<or>
     (\<not> truthyString (BROWSER_WS_ENDPOINT env) \<and>
        (\<exists>p. snd (acquireBrowser env eng) = [Launch p]))"
  by (auto simp: acquireBrowser_def launchLocal_def truthyString_def split: option.splits if_splits)

section \<open>Occurrences of a text around a given character\<close>

lemma occurs_iff:
  "occurs (rev pre) c post acc t \<longleftrightarrow>
     (\<exists>u v. t = u @ c # v \<and> suffix pre (rev acc @ u) \<and> prefix post v)"
proof (induction t arbitrary: acc)
  case Nil
  then show ?case by simp
next
  case (Cons x t)
  have "(\<exists>u v. x # t = u @ c # v \<and> suffix pre (rev acc @ u) \<and> prefix post v) \<longleftrightarrow>
        (x = c \<and> suffix pre (rev acc) \<and> prefix post t) \<or>
        (\<exists>u v. t = u @ c # v \<and> suffix pre (rev (x # acc) @ u) \<and> prefix post v)"
    (is "?L \<longleftrightarrow> ?A \<or> ?B")
  proof
    assume ?L
    then obtain u v where uv: "x # t = u @ c # v" "suffix pre (rev acc @ u)" "prefix post v"
      by blast
    show "?A \<or> ?B"
    proof (cases u)
      case Nil
      with uv show ?thesis by simp
    next
      case (Cons y u')
      with uv have "t = u' @ c # v" "suffix pre (rev (x # acc) @ u')" by simp_all
      with uv(3) show ?thesis by blast
    qed
  next
    assume "?A \<or> ?B"
    then show ?L
    proof
      assume ?A
      then have "x # t = [] @ c # t \<and> suffix pre (rev acc @ []) \<and> prefix post t" by simp
      then show ?L by blast
    next
      assume ?B
      then obtain u v where "t = u @ c # v" "suffix pre (rev (x # acc) @ u)" "prefix post v"
        by blast
      then have "x # t = (x # u) @ c # v \<and> suffix pre (rev acc @ (x # u)) \<and> prefix post v"
        by simp
      then show ?L by blast
    qed
  qed
  moreover have "suffix pre (rev acc) \<longleftrightarrow> prefix (rev pre) acc"
    by (simp add: suffix_to_prefix)
  ultimately show ?case
    using Cons.IH [of "x # acc"] by simp
qed

lemma sublist_occurs:
  "sublist (pre @ c # post) t \<longleftrightarrow> occurs (rev pre) c post [] t"
proof -
  have "sublist (pre @ c # post) t \<longleftrightarrow>
        (\<exists>u v. t = u @ c # v \<and> suffix pre u \<and> prefix post v)"
  proof
    assume "sublist (pre @ c # post) t"
    then obtain ps ss where "t = ps @ (pre @ c # post) @ ss" by (auto simp: sublist_def)
    then have "t = (ps @ pre) @ c # (post @ ss) \<and> suffix pre (ps @ pre) \<and> prefix post (post @ ss)"
      by (simp add: suffix_def)
    then show "\<exists>u v. t = u @ c # v \<and> suffix pre u \<and> prefix post v" by blast
  next
    assume "\<exists>u v. t = u @ c # v \<and> suffix pre u \<and> prefix post v"
    then obtain u v where "t = u @ c # v" "suffix pre u" "prefix post v" by blast
    then obtain ps ss where "u = ps @ pre" "v = post @ ss"
      by (auto simp: suffix_def prefix_def)
    with \<open>t = u @ c # v\<close> have "t = ps @ (pre @ c # post) @ ss" by simp
    then show "sublist (pre @ c # post) t" by (auto simp: sublist_def)
  qed
  then show ?thesis by (simp add: occurs_iff)
qed

lemma skippable_Nil [simp]: "skippable c post []"
  by (simp add: skippable_def)

lemma skippable_Cons:
  "skippable c post (x # a) \<longleftrightarrow>
     (x = c \<longrightarrow> (\<forall>t. \<not> prefix post (a @ t))) \<and> skippable c post a"
proof
  assume s: "skippable c post (x # a)"
  have "\<not> prefix post (a @ t)" if "x = c" for t
    using s that unfolding skippable_def by (metis append_Nil)
  moreover have "skippable c post a"
    unfolding skippable_def
  proof (intro allI impI)
    fix u v t
    assume "a = u @ c # v"
    then have "x # a = (x # u) @ c # v" by simp
    with s show "\<not> prefix post (v @ t)" unfolding skippable_def by blast
  qed
  ultimately show "(x = c \<longrightarrow> (\<forall>t. \<not> prefix post (a @ t))) \<and> skippable c post a"
    by blast
next
  assume r: "(x = c \<longrightarrow> (\<forall>t. \<not> prefix post (a @ t))) \<and> skippable c post a"
  show "skippable c post (x # a)"
    unfolding skippable_def
  proof (intro allI impI)
    fix u v t
    assume eq: "x # a = u @ c # v"
    show "\<not> prefix post (v @ t)"
    proof (cases u)
      case Nil
      with eq r show ?thesis by simp
    next
      case (Cons y u')
      with eq have "a = u' @ c # v" by simp
      with r show ?thesis unfolding skippable_def by blast
    qed
  qed
qed

lemma skippable_absent: "c \<notin> set a \<Longrightarrow> skippable c post a"
  by (auto simp: skippable_def)

lemma skippable_append:
  assumes "skippable c post a" and "skippable c post b"
  shows "skippable c post (a @ b)"
  using assms
proof (induction a)
  case Nil
  then show ?case by simp
next
  case (Cons x a)
  then show ?case
    by (simp add: skippable_Cons)
qed

lemma occurs_skip:
  "skippable c post a \<Longrightarrow>
     occurs rpre c post acc (a @ t) = occurs rpre c post (rev a @ acc) t"
proof (induction a arbitrary: acc)
  case Nil
  then show ?case by simp
next
  case (Cons x a)
  then show ?case
    by (auto simp: skippable_Cons)
qed

lemma occurs_skip_last: "skippable c post a \<Longrightarrow> \<not> occurs rpre c post acc a"
  using occurs_skip [of c post a rpre acc "[]"] by simp

section \<open>The rules of the pagination policy in the style sheet\<close>

lemma digit_mem: "k < 10 \<Longrightarrow> ''0123456789'' ! k \<in> set ''0123456789''"
  using nth_mem [of k "''0123456789''"] by simp

lemma set_show_nat: "set (show_nat n) \<subseteq> set ''0123456789''"
proof (induction n rule: show_nat.induct)
  case (1 n)
  show ?case
  proof (cases "n < 10")
    case True
    then have "show_nat n = [''0123456789'' ! n]"
      by (subst show_nat.simps) simp
    with digit_mem [OF True] show ?thesis by simp
  next
    case False
    then have "show_nat n = show_nat (n div 10) @ [''0123456789'' ! (n mod 10)]"
      by (subst show_nat.simps) simp
    moreover have "''0123456789'' ! (n mod 10) \<in> set ''0123456789''"
      by (rule digit_mem) simp
    ultimately show ?thesis
      using 1 [OF False] by simp
  qed
qed

lemma brace_show_int [simp]: "brace \<notin> set (show_int i)"
  using set_show_nat [of "nat i"] set_show_nat [of "nat (- i)"]
  by (auto simp: show_int_def)

lemma brace_escapeHtml [simp]: "brace \<notin> set h \<Longrightarrow> brace \<notin> set (escapeHtml h)"
  by (induction h) (auto simp: escapeHtml_Cons)

text \<open>
  In the style sheet, outside the rules that depend on the pagination policy, an opening
  brace is followed by a line break or, in the header and footer rules, by \<open> content\<close>:
  never by a text that begins with \<open> p\<close>.
\<close>

lemma skip_resetRule: "skippable brace (CHR '' '' # CHR ''p'' # ps) resetRule"
  by (simp add: resetRule_def skippable_Cons)

lemma skip_headingsRule: "skippable brace (CHR '' '' # CHR ''p'' # ps) headingsRule"
  by (simp add: headingsRule_def skippable_Cons)

lemma skip_fixedRules: "skippable brace (CHR '' '' # CHR ''p'' # ps) fixedRules"
  by (simp add: fixedRules_def skippable_Cons)

lemma skip_pageRuleHead:
  "brace \<notin> set sz \<Longrightarrow> skippable brace (CHR '' '' # CHR ''p'' # ps) (pageRuleHead sz mt mr mb ml)"
  by (simp add: pageRuleHead_def skippable_Cons skippable_append skippable_absent)

lemma skip_headerRule:
  "brace \<notin> set (case headerText r of None \<Rightarrow> [] | Some h \<Rightarrow> h) \<Longrightarrow>
     skippable brace (CHR '' '' # CHR ''p'' # ps) (headerRule r)"
  by (simp add: headerRule_def skippable_Cons skippable_append skippable_absent
        split: option.splits)

lemma skip_footerRule:
  "brace \<notin> set (case footerText r of None \<Rightarrow> [] | Some f \<Rightarrow> f) \<Longrightarrow>
     skippable brace (CHR '' '' # CHR ''p'' # ps) (footerRule r)"
  by (simp add: footerRule_def skippable_Cons skippable_append skippable_absent
        split: option.splits)

lemma skip_pageRule:
  assumes "plainStyleTexts r"
  shows "skippable brace (CHR '' '' # CHR ''p'' # ps) (pageRule r)"
proof -
  from assms
  have h: "brace \<notin> set (case headerText r of None \<Rightarrow> [] | Some h \<Rightarrow> h)"
    and f: "brace \<notin> set (case footerText r of None \<Rightarrow> [] | Some f \<Rightarrow> f)"
    by (simp_all add: plainStyleTexts_def)
  show ?thesis
    unfolding pageRule_alt
    by (intro skippable_append skip_pageRuleHead skip_headerRule [OF h] skip_footerRule [OF f]
          skippable_absent) simp_all
qed

lemma skip_bodyRule:
  assumes "plainStyleTexts r"
  shows "skippable brace (CHR '' '' # CHR ''p'' # ps) (bodyRule r)"
proof -
  from assms have "brace \<notin> set (fontFamily r)" and "brace \<notin> set (lineHeight r)"
    by (simp_all add: plainStyleTexts_def)
  then show ?thesis
    by (simp add: bodyRule_def skippable_Cons skippable_append skippable_absent)
qed

text \<open>The text before the rules of the pagination policy, skipped as a whole.\<close>

lemma occurs_styleSheet:
  assumes "plainStyleTexts r"
  shows "occurs rpre brace (CHR '' '' # CHR ''p'' # ps) [] (styleSheet r) =
         occurs rpre brace (CHR '' '' # CHR ''p'' # ps)
           (rev (resetRule @ pageRule r @ bodyRule r @ headingsRule)) (breakRules r @ fixedRules)"
proof -
  have "skippable brace (CHR '' '' # CHR ''p'' # ps) (resetRule @ pageRule r @ bodyRule r @ headingsRule)"
    using assms
    by (intro skippable_append skip_resetRule skip_pageRule skip_bodyRule skip_headingsRule)
  from occurs_skip [OF this, of rpre "[]" "breakRules r @ fixedRules"] show ?thesis
    by (simp add: styleSheet_def)
qed

lemma occurs_fixedRules [simp]: "\<not> occurs rpre brace (CHR '' '' # CHR ''p'' # ps) acc fixedRules"
  by (rule occurs_skip_last) (rule skip_fixedRules)

lemma no_break_before_h1:
  assumes "plainStyleTexts r" and "pageBreakBeforeHeadings r \<noteq> ''h1''"
  shows "\<not> sublist ''h1 { page-break-before: always; }'' (styleSheet r)"
proof -
  have "\<not> occurs (rev ''h1 '') brace '' page-break-before: always; }'' [] (styleSheet r)"
    using assms(2)
    by (simp add: occurs_styleSheet [OF assms(1)] breakRules_def breakBeforeH1_def
          breakBeforeH2_def orphanRule_def)
  then show ?thesis
    using sublist_occurs [of "''h1 ''" brace "'' page-break-before: always; }''" "styleSheet r"]
    by simp
qed

lemma no_break_before_h2:
  assumes "plainStyleTexts r" and "pageBreakBeforeHeadings r \<noteq> ''h2''"
  shows "\<not> sublist ''h2 { page-break-before: always; }'' (styleSheet r)"
proof -
  have "\<not> occurs (rev ''h2 '') brace '' page-break-before: always; }'' [] (styleSheet r)"
    using assms(2)
    by (simp add: occurs_styleSheet [OF assms(1)] breakRules_def breakBeforeH1_def
          breakBeforeH2_def orphanRule_def)
  then show ?thesis
    using sublist_occurs [of "''h2 ''" brace "'' page-break-before: always; }''" "styleSheet r"]
    by simp
qed

lemma no_orphan_rule:
  assumes "plainStyleTexts r" and "preventOrphanHeadings r = 0"
  shows "\<not> sublist ''h1, h2, h3 { page-break-after: avoid; orphans: 3; widows: 3; }''
           (styleSheet r)"
proof -
  have "\<not> occurs (rev ''h1, h2, h3 '') brace
          '' page-break-after: avoid; orphans: 3; widows: 3; }'' [] (styleSheet r)"
    using assms(2)
    by (simp add: occurs_styleSheet [OF assms(1)] breakRules_def breakBeforeH1_def
          breakBeforeH2_def orphanRule_def)
  then show ?thesis
    using sublist_occurs [of "''h1, h2, h3 ''" brace
        "'' page-break-after: avoid; orphans: 3; widows: 3; }''" "styleSheet r"]
    by simp
qed

text \<open>A rule that the policy requests is in the style sheet.\<close>

lemma breakRules_in_styleSheet: "sublist (breakRules r) (styleSheet r)"
proof -
  have "styleSheet r =
      (resetRule @ pageRule r @ bodyRule r @ headingsRule) @ breakRules r @ fixedRules"
    by (simp add: styleSheet_def)
  then show ?thesis by (simp only: sublist_appendI)
qed

lemma has_break_before_h1:
  assumes "pageBreakBeforeHeadings r = ''h1''"
  shows "sublist ''h1 { page-break-before: always; }'' (styleSheet r)"
proof -
  have "breakRules r = ''    '' @ ''h1 { page-break-before: always; }''
      @ (''\<newline>    '' @ breakBeforeH2 r @ ''\<newline>\<newline>    '' @ orphanRule r @ ''\<newline>\<newline>'')"
    using assms by (simp add: breakRules_def breakBeforeH1_def)
  then have "sublist ''h1 { page-break-before: always; }'' (breakRules r)"
    by (simp only: sublist_appendI)
  then show ?thesis
    using breakRules_in_styleSheet sublist_order.order_trans by blast
qed

lemma has_break_before_h2:
  assumes "pageBreakBeforeHeadings r = ''h2''"
  shows "sublist ''h2 { page-break-before: always; }'' (styleSheet r)"
proof -
  have "breakRules r = (''    '' @ breakBeforeH1 r @ ''\<newline>    '')
      @ ''h2 { page-break-before: always; }''
      @ (''\<newline>\<newline>    '' @ orphanRule r @ ''\<newline>\<newline>'')"
    using assms by (simp add: breakRules_def breakBeforeH2_def)
  then have "sublist ''h2 { page-break-before: always; }'' (breakRules r)"
    by (simp only: sublist_appendI)
  then show ?thesis
    using breakRules_in_styleSheet sublist_order.order_trans by blast
qed

lemma has_orphan_rule:
  assumes "preventOrphanHeadings r \<noteq> 0"
  shows "sublist ''h1, h2, h3 { page-break-after: avoid; orphans: 3; widows: 3; }''
           (styleSheet r)"
proof -
  have "breakRules r =
      (''    '' @ breakBeforeH1 r @ ''\<newline>    '' @ breakBeforeH2 r @ ''\<newline>\<newline>    '')
      @ ''h1, h2, h3 { page-break-after: avoid; orphans: 3; widows: 3; }''
      @ ''\<newline>\<newline>''"
    using assms by (simp add: breakRules_def orphanRule_def)
  then have "sublist ''h1, h2, h3 { page-break-after: avoid; orphans: 3; widows: 3; }''
      (breakRules r)"
    by (simp only: sublist_appendI)
  then show ?thesis
    using breakRules_in_styleSheet sublist_order.order_trans by blast
qed

text \<open>The style sheet holds the font family of the rule as it is, and is in the document.\<close>

lemma fontFamily_in_styleSheet: "sublist (fontFamily r) (styleSheet r)"
proof -
  have "styleSheet r =
      (resetRule @ pageRule r @ ''    body {\<newline>'' @ ''      font-family: '' @ sq)
      @ fontFamily r
      @ (sq @ '', sans-serif;\<newline>'' @ ''      font-size: '' @ show_int (fontSize r) @ ''px;\<newline>''
         @ ''      line-height: '' @ lineHeight r @ '';\<newline>'' @ ''      color: #333;\<newline>''
         @ ''    }\<newline>'' @ ''\<newline>''
         @ headingsRule @ breakRules r @ fixedRules)"
    by (simp add: styleSheet_def bodyRule_def)
  then show ?thesis by (simp only: sublist_appendI)
qed

lemma styleSheet_in_document: "sublist (styleSheet r) (generateStyledHtml content r)"
  by (simp only: generateStyledHtml_parts sublist_appendI)

section \<open>The renderer on untyped input and the typed renderer\<close>

lemma astToHtmlRaw_rawRoot [simp]:
  "astToHtmlRaw (rawRoot cs) rr d = rawChildren cs rr d"
  by (subst astToHtmlRaw.simps) (simp add: rawChildren_def)

lemma bindE_Inr [simp]: "bindE (Inr v) f = f v"
  by (simp add: bindE_def)

lemma bindE_Inl [simp]: "bindE (Inl e) f = Inl e"
  by (simp add: bindE_def)



lemma js_read_unreadable:
  "\<not> readable v \<Longrightarrow> js_read v k = Inl TypeError"
  by (cases v) (simp_all add: readable_def)


lemma styleText_unreadable:
  "\<not> readable v \<Longrightarrow> styleText v f d = Inl TypeError"
  by (simp add: styleText_def js_read_unreadable)


lemma js_truthy_or_obj [simp]: "js_truthy (js_or v (JObj m))"
  by (simp add: js_or_def)

lemma escapeHtmlRaw_Some [simp]: "escapeHtmlRaw (Some t) = Inr (escapeHtml t)"
  by (simp add: escapeHtmlRaw_def)

lemma escapeHtmlRaw_None [simp]: "escapeHtmlRaw None = Inl TypeError"
  by (simp add: escapeHtmlRaw_def)

lemma node_type_typedNode [simp]: "node_type (typedNode n) = raw_type n"
  by (cases n) simp

lemma node_children_typedNode [simp]:
  "node_children (typedNode n) = map_option (map typedNode) (raw_children n)"
  by (cases n) simp

lemma node_value_typedNode [simp]:
  "node_value (typedNode n) = (case raw_value n of None \<Rightarrow> [] | Some s \<Rightarrow> s)"
  by (cases n) simp

lemma node_url_typedNode [simp]:
  "node_url (typedNode n) = (case raw_url n of None \<Rightarrow> [] | Some s \<Rightarrow> s)"
  by (cases n) simp

lemma node_depth_typedNode [simp]: "node_depth (typedNode n) = raw_depth n"
  by (cases n) simp

lemma node_ordered_typedNode [simp]: "node_ordered (typedNode n) = raw_ordered n"
  by (cases n) simp

lemma node_alt_typedNode [simp]: "node_alt (typedNode n) = raw_alt n"
  by (cases n) simp

lemma typedRule_simps [simp]:
  "headingStyles (typedRule rr) = typedStyles (raw_headingStyles rr)"
  "codeBlockStyles (typedRule rr) = typedStyles (raw_codeBlockStyles rr)"
  "tableStyles (typedRule rr) = typedStyles (raw_tableStyles rr)"
  "lineHeight (typedRule rr) = raw_lineHeight rr"
  "pageSize (typedRule rr) = raw_pageSize rr"
  by (simp_all add: typedRule_def)






















chapter \<open>The claims\<close>

section \<open>Escaping\<close>



section \<open>Headings\<close>

text \<open>
  C2 (as amended). For a heading node of level \<open>L\<close> the renderer looks up the key \<open>hL\<close>
  in the heading styles of the rule. When the key is absent, the four values are the fixed
  defaults 16, 600, 12 and 6; when the key holds a style object, each field that is absent
  from it takes that same default and each field that is present and truthy is printed.
  The element emitted is \<open><hL>\<close> with \<open>font-size\<close>, \<open>margin-top\<close> and \<open>margin-bottom\<close> in
  px and \<open>font-weight\<close> without a unit, wrapping the fragment of the children.
\<close>

theorem heading_style_lookup:
  assumes "node_type n = ''heading''" and "L = node_depth n"
  shows "(headingStyles r (''h'' @ show_nat L) = None \<longrightarrow>
            astToHtml n r d =
              headingMarkup L ''16'' ''600'' ''12'' ''6'' (renderChildren (node_children n) r d))
       \<and> (\<forall>obj. headingStyles r (''h'' @ show_nat L) = Some (JObj obj) \<longrightarrow>
            astToHtml n r d =
              headingMarkup L (fieldText obj ''fontSize'' (JNum 16))
                (fieldText obj ''fontWeight'' (JNum 600))
                (fieldText obj ''marginTop'' (JNum 12))
                (fieldText obj ''marginBottom'' (JNum 6))
                (renderChildren (node_children n) r d))"
  using assms
  by (simp add: heading_of_obj headingStyleOf_None headingStyleOf_obj)

text \<open>
  A heading of level 2 under the default heading styles, and a heading of level 3 under
  heading styles without the key \<open>h3\<close>.
\<close>

theorem heading_style_lookup_witness:
  "astToHtml (headingNode 2 [textNode ''Hi'']) mockFormattingRule 0 =
     ''<h2 style='' @ dq @ ''font-size: 24px; font-weight: 800; margin-top: 20px; margin-bottom: 10px;'' @ dq @ ''>Hi''
     @ ''</h2>''
   \<and> astToHtml (headingNode 3 [])
       (mockFormattingRule\<lparr>headingStyles := DEFAULT_HEADING_STYLES(''h3'' := None)\<rparr>) 0 =
     ''<h3 style='' @ dq @ ''font-size: 16px; font-weight: 600; margin-top: 12px; margin-bottom: 6px;'' @ dq @ ''>''
     @ ''</h3>''"
  using heading_style_lookup [of "headingNode 2 [textNode ''Hi'']" 2 mockFormattingRule 0]
        heading_style_lookup [of "headingNode 3 []" 3
          "mockFormattingRule\<lparr>headingStyles := DEFAULT_HEADING_STYLES(''h3'' := None)\<rparr>" 0]
  by (simp add: headingNode_def textNode_def mockFormattingRule_def DEFAULT_HEADING_STYLES_def
        headingMarkup_def fieldText_def astToHtml_text escapeHtml_def)

text \<open>
  A heading of level 1 under the default heading styles: the \<open>font-weight\<close> of the
  element has no unit, so the element is not the one with all four values in px.
\<close>

theorem heading_all_px_counterexample:
  "astToHtml (headingNode 1 [textNode ''Hi'']) mockFormattingRule 0 =
     ''<h1 style='' @ dq @ ''font-size: 32px; font-weight: 900; margin-top: 24px; margin-bottom: 12px;'' @ dq @ ''>Hi''
     @ ''</h1>''
   \<and> astToHtml (headingNode 1 [textNode ''Hi'']) mockFormattingRule 0 \<noteq>
     headingMarkupAllPx 1 ''32'' ''900'' ''24'' ''12'' ''Hi''"
  by (simp add: astToHtml_heading astToHtml_text escapeHtml_def headingStyleOf_def
        headingNode_def textNode_def mockFormattingRule_def DEFAULT_HEADING_STYLES_def
        headingMarkupAllPx_def js_lookup_def js_or_def)

section \<open>Tables and lists\<close>

text \<open>
  C3. For a table node, the cells of a row are \<open>th\<close> cells, on a row with the configured
  header background colour, exactly when the row has index 0 and the table has more than
  one row; every other row, and the only row of a single-row table, has \<open>td\<close> cells on a
  white background; every cell carries the same inline border, padding and font size of
  the table styles.
\<close>

theorem table_header_row:
  assumes "node_type n = ''table''"
  shows "astToHtml n r d =
           tableOpen r @ tableRowsSpec r d (rowsOf n) @ ''</tbody></table>''
       \<and> astToHtml n r d =
           tableOpen r
           @ concat (map (\<lambda>i. rowMarkup r d (i = 0 \<and> 1 < length (rowsOf n)) (rowsOf n ! i))
                [0..<length (rowsOf n)])
           @ ''</tbody></table>''"
  using assms table_rows_index [of r d "length (rowsOf n)" 0 "rowsOf n"]
  by (simp add: astToHtml_table_rows table_rows_spec)

text \<open>A table of one row, and a table of two rows.\<close>

theorem table_header_row_witness:
  "astToHtml (parentNode ''table'' [parentNode ''tableRow'' [parentNode ''tableCell'' [textNode ''a'']]])
     mockFormattingRule 0 =
     ''<table style='' @ dq @ ''border-collapse: collapse; width: 100%; margin-bottom: 1em; border: 1px solid #ddd;'' @ dq @ ''>''
     @ ''<tbody><tr style='' @ dq @ ''background-color: white;'' @ dq @ ''>''
     @ ''<td style='' @ dq @ ''border: 1px solid #ddd; padding: 8px; font-size: 11px;'' @ dq @ ''>a''
     @ ''</td></tr></tbody></table>''
   \<and> astToHtml (parentNode ''table''
       [parentNode ''tableRow'' [parentNode ''tableCell'' [textNode ''a'']],
        parentNode ''tableRow'' [parentNode ''tableCell'' [textNode ''b'']]])
     mockFormattingRule 0 =
     ''<table style='' @ dq @ ''border-collapse: collapse; width: 100%; margin-bottom: 1em; border: 1px solid #ddd;'' @ dq @ ''>''
     @ ''<tbody><tr style='' @ dq @ ''background-color: #f9f9f9;'' @ dq @ ''>''
     @ ''<th style='' @ dq @ ''border: 1px solid #ddd; padding: 8px; font-size: 11px;'' @ dq @ ''>a''
     @ ''</th></tr><tr style='' @ dq @ ''background-color: white;'' @ dq @ ''>''
     @ ''<td style='' @ dq @ ''border: 1px solid #ddd; padding: 8px; font-size: 11px;'' @ dq @ ''>b''
     @ ''</td></tr></tbody></table>''"
  using table_header_row [of "parentNode ''table'' [parentNode ''tableRow'' [parentNode ''tableCell'' [textNode ''a'']]]"
          mockFormattingRule 0]
        table_header_row [of "parentNode ''table''
           [parentNode ''tableRow'' [parentNode ''tableCell'' [textNode ''a'']],
            parentNode ''tableRow'' [parentNode ''tableCell'' [textNode ''b'']]]"
          mockFormattingRule 0]
  by (simp add: parentNode_def textNode_def mockFormattingRule_def DEFAULT_TABLE_STYLES_def
        tableOpen_def rowsOf_def rowMarkup_def cellsOf_def cellMarkup_def cellStyle_def
        fieldText_def astToHtml_text escapeHtml_def)

text \<open>
  C4. A list node rendered at depth \<open>d\<close> is an \<open>ol\<close> element when the ordered flag is set
  and an \<open>ul\<close> element otherwise, with left margin \<open>20 + d * 20\<close> px and bottom margin
  1em, and its children are rendered at depth \<open>d + 1\<close>; a list item passes its depth on
  unchanged, so a list inside an item of a list has a left margin 20px larger; the root
  is rendered at depth 0.
\<close>

theorem list_nesting:
  "(node_type n = ''list'' \<longrightarrow>
      astToHtml n r d =
        listMarkup (node_ordered n) (20 + d * 20) (renderChildren (node_children n) r (d + 1)))
   \<and> (node_type n = ''listItem'' \<longrightarrow>
      astToHtml n r d = ''<li>'' @ renderChildren (node_children n) r d @ ''</li>'')
   \<and> (node_type n = ''root'' \<longrightarrow> astToHtml n r d = renderChildren (node_children n) r d)
   \<and> (node_type n = ''list'' \<and> node_children n = Some [item] \<and> node_type item = ''listItem''
      \<and> node_children item = Some [inner] \<and> node_type inner = ''list'' \<longrightarrow>
      astToHtml n r d =
        listMarkup (node_ordered n) (20 + d * 20)
          (''<li>''
           @ listMarkup (node_ordered inner) ((20 + d * 20) + 20)
               (renderChildren (node_children inner) r (d + 2))
           @ ''</li>''))
   \<and> markdownToHtml parse markdown r = generateStyledHtml (astToHtml (parse markdown) r 0) r"
  by (simp add: astToHtml_list astToHtml_listItem astToHtml_root listMarkup_def
        markdownToHtml_def)

theorem list_nesting_witness:
  "astToHtml (listNode False [parentNode ''listItem''
       [listNode True [parentNode ''listItem'' [textNode ''x'']]]]) mockFormattingRule 0 =
     ''<ul style='' @ dq @ ''margin-left: 20px; margin-bottom: 1em;'' @ dq @ ''><li>''
     @ ''<ol style='' @ dq @ ''margin-left: 40px; margin-bottom: 1em;'' @ dq @ ''><li>x</li>''
     @ ''</ol></li></ul>''"
  using list_nesting [where n = "listNode False [parentNode ''listItem''
          [listNode True [parentNode ''listItem'' [textNode ''x'']]]]"
        and r = mockFormattingRule and d = 0
        and item = "parentNode ''listItem'' [listNode True [parentNode ''listItem'' [textNode ''x'']]]"
        and inner = "listNode True [parentNode ''listItem'' [textNode ''x'']]"
        and parse = "\<lambda>markdown. root_node None" and markdown = "[]"]
  by (simp add: listNode_def parentNode_def textNode_def listMarkup_def astToHtml_list
        astToHtml_listItem astToHtml_text escapeHtml_def)

section \<open>Page geometry\<close>

text \<open>
  C5. The document holds, right after the reset rule of its style sheet, an \<open>@page\<close> rule
  whose size is \<open>8.5in 11in\<close> when the page size of the rule is \<open>Letter\<close> and
  \<open>210mm 297mm\<close> for every other value, unset included, and whose margin lists the top,
  right, bottom and left margins of the rule in this order, each in mm.
\<close>

theorem page_geometry:
  "prefix (docOpen @ resetRule @ ''    ''
           @ pageRuleHead (if pageSize r = Some ''Letter'' then ''8.5in 11in'' else ''210mm 297mm'')
               (marginTop r) (marginRight r) (marginBottom r) (marginLeft r))
     (generateStyledHtml content r)
   \<and> sublist
       (pageRuleHead (if pageSize r = Some ''Letter'' then ''8.5in 11in'' else ''210mm 297mm'')
          (marginTop r) (marginRight r) (marginBottom r) (marginLeft r))
       (generateStyledHtml content r)"
proof -
  let ?head = "pageRuleHead (if pageSize r = Some ''Letter'' then ''8.5in 11in'' else ''210mm 297mm'')
               (marginTop r) (marginRight r) (marginBottom r) (marginLeft r)"
  have p: "prefix (docOpen @ resetRule @ ''    '' @ ?head) (generateStyledHtml content r)"
    by (rule page_rule_prefix)
  have "prefix ((docOpen @ resetRule @ ''    '') @ ?head) (generateStyledHtml content r)"
    using p by simp
  then have "sublist ?head (generateStyledHtml content r)"
    by (rule prefix_sublist)
  with p show ?thesis by blast
qed

theorem page_geometry_witness:
  "sublist (''@page {\<newline>''
            @ ''      size: 8.5in 11in;\<newline>''
            @ ''      margin: 30mm 20mm 25mm 20mm;'')
     (generateStyledHtml ''<p>x</p>''
        (mockFormattingRule\<lparr>pageSize := Some ''Letter'', marginTop := 30, marginBottom := 25\<rparr>))
   \<and> sublist (''@page {\<newline>''
            @ ''      size: 210mm 297mm;\<newline>''
            @ ''      margin: 20mm 20mm 20mm 20mm;'')
     (generateStyledHtml ''<p>x</p>'' (mockFormattingRule\<lparr>pageSize := None\<rparr>))"
  using page_geometry [of "mockFormattingRule\<lparr>pageSize := Some ''Letter'', marginTop := 30, marginBottom := 25\<rparr>" "''<p>x</p>''"]
        page_geometry [of "mockFormattingRule\<lparr>pageSize := None\<rparr>" "''<p>x</p>''"]
  by (simp add: pageRuleHead_def mockFormattingRule_def)

section \<open>Pagination policy\<close>

text \<open>
  C6 (as amended). For a rule whose font family, line height, header text and footer text
  hold no opening brace, the style sheet of the document contains the page-break-before
  rule for \<open>h1\<close> exactly when \<open>pageBreakBeforeHeadings\<close> is \<open>h1\<close>, the one for \<open>h2\<close>
  exactly when it is \<open>h2\<close>, and the orphan and widow rule for \<open>h1\<close> to \<open>h3\<close> exactly when
  \<open>preventOrphanHeadings\<close> is truthy; a rule that the policy does not request is absent
  from the style sheet. The document is the fixed head, the style sheet, and the fixed
  tail around the body.
\<close>

theorem pagination_rules:
  assumes "plainStyleTexts r"
  shows "(sublist ''h1 { page-break-before: always; }'' (styleSheet r)
            \<longleftrightarrow> pageBreakBeforeHeadings r = ''h1'')
       \<and> (sublist ''h2 { page-break-before: always; }'' (styleSheet r)
            \<longleftrightarrow> pageBreakBeforeHeadings r = ''h2'')
       \<and> (sublist ''h1, h2, h3 { page-break-after: avoid; orphans: 3; widows: 3; }'' (styleSheet r)
            \<longleftrightarrow> preventOrphanHeadings r \<noteq> 0)
       \<and> generateStyledHtml content r = docOpen @ styleSheet r @ docClose content"
  using no_break_before_h1 [OF assms] has_break_before_h1 [of r]
    no_break_before_h2 [OF assms] has_break_before_h2 [of r]
    no_orphan_rule [OF assms] has_orphan_rule [of r]
    generateStyledHtml_parts [of content r]
  by blast

text \<open>
  The rule of the test suite asks for a page break before \<open>h1\<close> and for the orphan rule;
  with \<open>preventOrphanHeadings = 0\<close> the orphan rule is absent.
\<close>

theorem pagination_rules_witness:
  "sublist ''h1 { page-break-before: always; }'' (styleSheet mockFormattingRule)
   \<and> \<not> sublist ''h2 { page-break-before: always; }'' (styleSheet mockFormattingRule)
   \<and> sublist ''h1, h2, h3 { page-break-after: avoid; orphans: 3; widows: 3; }''
       (styleSheet mockFormattingRule)
   \<and> \<not> sublist ''h1, h2, h3 { page-break-after: avoid; orphans: 3; widows: 3; }''
       (styleSheet (mockFormattingRule\<lparr>preventOrphanHeadings := 0\<rparr>))"
  using pagination_rules [of mockFormattingRule "''x''"]
        pagination_rules [of "mockFormattingRule\<lparr>preventOrphanHeadings := 0\<rparr>" "''x''"]
  by (simp add: plainStyleTexts_def mockFormattingRule_def)

text \<open>
  The font family is written into the style sheet as it is: a font family that holds the
  text of a rule puts that rule into the style sheet, and into the document, although the
  policy asks for no page break.
\<close>

theorem pagination_injection_counterexample:
  "pageBreakBeforeHeadings injectedRule \<noteq> ''h1''
   \<and> sublist ''h1 { page-break-before: always; }'' (styleSheet injectedRule)
   \<and> sublist ''h1 { page-break-before: always; }'' (generateStyledHtml ''<p>x</p>'' injectedRule)"
proof -
  have "fontFamily injectedRule =
      (''x'' @ sq @ ''; } '') @ ''h1 { page-break-before: always; }''
      @ ('' body { font-family: '' @ sq @ ''y'')"
    by (simp add: injectedRule_def)
  then have "sublist ''h1 { page-break-before: always; }'' (fontFamily injectedRule)"
    by (simp only: sublist_appendI)
  then have s: "sublist ''h1 { page-break-before: always; }'' (styleSheet injectedRule)"
    using fontFamily_in_styleSheet sublist_order.order_trans by blast
  then have "sublist ''h1 { page-break-before: always; }''
      (generateStyledHtml ''<p>x</p>'' injectedRule)"
    using styleSheet_in_document sublist_order.order_trans by blast
  with s show ?thesis
    by (simp add: injectedRule_def)
qed

section \<open>Leniency over the configuration\<close>




section \<open>Release of the browser engine\<close>

text \<open>
  C9 (as amended). Once a browser is held, the function calls the engine's release exactly
  once, as its last call, on every path: \<open>disconnect\<close> when the browser was obtained over
  the WebSocket endpoint, \<open>close\<close> when it was launched locally. When the release succeeds
  the result is the outcome of the \<open>try\<close> block, its error or its buffer; when the release
  throws, the error of the release is the result, in place of that outcome.
\<close>

theorem engine_released:
  assumes "fst (acquireBrowser env eng) = None"
    and "body = tryBlock eng (markdownToHtml parse markdown rules) rules"
    and "run = generatePdfFromMarkdown parse env eng markdown rules"
  shows "((\<exists>ws. snd run = [Connect ws] @ snd body @ [Disconnect]
            \<and> truthyString (BROWSER_WS_ENDPOINT env)
            \<and> fst run = (case browser_disconnect eng of None \<Rightarrow> fst body | Some e \<Rightarrow> Inl e))
        \<or> (\<exists>p. snd run = [Launch p] @ snd body @ [Close]
            \<and> \<not> truthyString (BROWSER_WS_ENDPOINT env)
            \<and> fst run = (case browser_close eng of None \<Rightarrow> fst body | Some e \<Rightarrow> Inl e)))
       \<and> length (filter isRelease (snd run)) = 1
       \<and> isRelease (last (snd run))"
proof -
  have nr: "filter isRelease (snd body) = []"
    unfolding assms(2) by (auto simp: filter_empty_conv dest: tryBlock_no_release)
  from acquireBrowser_calls [OF assms(1)] show ?thesis
  proof (elim disjE conjE exE)
    fix ws
    assume "truthyString (BROWSER_WS_ENDPOINT env)"
      and "snd (acquireBrowser env eng) = [Connect ws]"
    with assms nr show ?thesis
      by (simp add: generatePdfFromMarkdown_def tryFinally_def finallyBlock_def Let_def
            isRelease_def split: option.splits)
  next
    fix p
    assume "\<not> truthyString (BROWSER_WS_ENDPOINT env)"
      and "snd (acquireBrowser env eng) = [Launch p]"
    with assms nr show ?thesis
      by (simp add: generatePdfFromMarkdown_def tryFinally_def finallyBlock_def Let_def
            isRelease_def split: option.splits)
  qed
qed

text \<open>
  A run that succeeds over the endpoint, and a run on a local browser whose \<open>newPage\<close> and
  whose \<open>close\<close> both throw.
\<close>

theorem engine_released_witness:
  "generatePdfFromMarkdown testParse remoteEnvironment workingEngine ''# Test'' mockFormattingRule =
     (Inr [37, 80, 68, 70],
      [Connect ''ws://browser:3000'', NewPage,
       SetContent (markdownToHtml testParse ''# Test'' mockFormattingRule) ''networkidle0'',
       Pdf \<lparr> format = ''A4'', margin_top = ''20mm'', margin_bottom = ''20mm'',
             margin_left = ''20mm'', margin_right = ''20mm'', printBackground = True \<rparr>,
       Disconnect])
   \<and> generatePdfFromMarkdown testParse localEnvironment failingEngine ''# Test'' mockFormattingRule =
     (Inl (EngineError ''close failed''), [Launch ''/opt/chrome'', NewPage, Close])"
  using engine_released [where env = remoteEnvironment and eng = workingEngine
          and parse = testParse and markdown = "''# Test''" and rules = mockFormattingRule
          and body = "tryBlock workingEngine
             (markdownToHtml testParse ''# Test'' mockFormattingRule) mockFormattingRule"
          and run = "generatePdfFromMarkdown testParse remoteEnvironment workingEngine
             ''# Test'' mockFormattingRule"]
        engine_released [where env = localEnvironment and eng = failingEngine
          and parse = testParse and markdown = "''# Test''" and rules = mockFormattingRule
          and body = "tryBlock failingEngine
             (markdownToHtml testParse ''# Test'' mockFormattingRule) mockFormattingRule"
          and run = "generatePdfFromMarkdown testParse localEnvironment failingEngine
             ''# Test'' mockFormattingRule"]
  by (simp add: generatePdfFromMarkdown_def acquireBrowser_def launchLocal_def chromePaths_def
        tryFinally_def tryBlock_def finallyBlock_def truthyString_def remoteEnvironment_def
        localEnvironment_def workingEngine_def failingEngine_def Let_def
        mockFormattingRule_def)

text \<open>
  The \<open>try\<close> block fails in \<open>newPage\<close>, the release is attempted and fails too: the
  caller observes the error of the release only.
\<close>

theorem release_masks_counterexample:
  "fst (tryBlock failingEngine (markdownToHtml testParse ''# Test'' mockFormattingRule)
          mockFormattingRule) = Inl (EngineError ''newPage failed'')
   \<and> snd (generatePdfFromMarkdown testParse remoteEnvironment failingEngine ''# Test''
          mockFormattingRule) = [Connect ''ws://browser:3000'', NewPage, Disconnect]
   \<and> EngineError ''newPage failed'' \<notin>
       observedErrors (fst (generatePdfFromMarkdown testParse remoteEnvironment failingEngine
          ''# Test'' mockFormattingRule))"
  by (simp add: generatePdfFromMarkdown_def acquireBrowser_def tryFinally_def tryBlock_def
        finallyBlock_def truthyString_def remoteEnvironment_def failingEngine_def
        observedErrors_def Let_def)

section \<open>Falsy style fields\<close>

text \<open>
  C10. The defaults are applied by truthiness: a field of a heading style object, of the
  code block styles or of the table styles that is set to 0 or to the empty string renders,
  in every tree, as the field set to its fixed default and as the field left out.
\<close>

theorem falsy_style_field_is_default:
  assumes "v = JNum 0 \<or> v = JStr []"
  shows "((f, dv) \<in> set headingFields \<longrightarrow>
            astToHtml n (r\<lparr>headingStyles := hs(k \<mapsto> JObj (obj(f \<mapsto> v)))\<rparr>) d =
            astToHtml n (r\<lparr>headingStyles := hs(k \<mapsto> JObj (obj(f \<mapsto> dv)))\<rparr>) d
          \<and> astToHtml n (r\<lparr>headingStyles := hs(k \<mapsto> JObj (obj(f \<mapsto> v)))\<rparr>) d =
            astToHtml n (r\<lparr>headingStyles := hs(k \<mapsto> JObj (obj(f := None)))\<rparr>) d)
       \<and> ((f, dv) \<in> set codeFields \<longrightarrow>
            astToHtml n (r\<lparr>codeBlockStyles := cs(f \<mapsto> v)\<rparr>) d =
            astToHtml n (r\<lparr>codeBlockStyles := cs(f \<mapsto> dv)\<rparr>) d
          \<and> astToHtml n (r\<lparr>codeBlockStyles := cs(f \<mapsto> v)\<rparr>) d =
            astToHtml n (r\<lparr>codeBlockStyles := cs(f := None)\<rparr>) d)
       \<and> ((f, dv) \<in> set tableFields \<longrightarrow>
            astToHtml n (r\<lparr>tableStyles := ts(f \<mapsto> v)\<rparr>) d =
            astToHtml n (r\<lparr>tableStyles := ts(f \<mapsto> dv)\<rparr>) d
          \<and> astToHtml n (r\<lparr>tableStyles := ts(f \<mapsto> v)\<rparr>) d =
            astToHtml n (r\<lparr>tableStyles := ts(f := None)\<rparr>) d)"
proof -
  from assms have falsy: "\<not> js_truthy v" by auto
  have a: "fieldText (m(f \<mapsto> v)) f dflt = fieldText (m(f := None)) f dflt" for m dflt
    using falsy by (simp add: fieldText_upd_falsy fieldText_upd_absent)
  have b: "fieldText (m(f \<mapsto> v)) f dflt = fieldText (m(f \<mapsto> dflt)) f dflt" for m dflt
    using falsy by (simp add: fieldText_upd_falsy fieldText_upd_default)
  show ?thesis
  proof (intro conjI impI)
    assume "(f, dv) \<in> set headingFields"
    then have "sameStyles (r\<lparr>headingStyles := hs(k \<mapsto> JObj (obj(f \<mapsto> v)))\<rparr>)
        (r\<lparr>headingStyles := hs(k \<mapsto> JObj (obj(f \<mapsto> dv)))\<rparr>)"
      by (intro sameStyles_heading) (auto dest: field_default_unique simp: b)
    then show "astToHtml n (r\<lparr>headingStyles := hs(k \<mapsto> JObj (obj(f \<mapsto> v)))\<rparr>) d =
            astToHtml n (r\<lparr>headingStyles := hs(k \<mapsto> JObj (obj(f \<mapsto> dv)))\<rparr>) d"
      by (rule astToHtml_cong)
  next
    have "sameStyles (r\<lparr>headingStyles := hs(k \<mapsto> JObj (obj(f \<mapsto> v)))\<rparr>)
        (r\<lparr>headingStyles := hs(k \<mapsto> JObj (obj(f := None)))\<rparr>)"
      by (intro sameStyles_heading) (simp add: a)
    then show "astToHtml n (r\<lparr>headingStyles := hs(k \<mapsto> JObj (obj(f \<mapsto> v)))\<rparr>) d =
            astToHtml n (r\<lparr>headingStyles := hs(k \<mapsto> JObj (obj(f := None)))\<rparr>) d"
      by (rule astToHtml_cong)
  next
    assume "(f, dv) \<in> set codeFields"
    then have "sameStyles (r\<lparr>codeBlockStyles := cs(f \<mapsto> v)\<rparr>) (r\<lparr>codeBlockStyles := cs(f \<mapsto> dv)\<rparr>)"
      by (intro sameStyles_code) (auto dest: field_default_unique simp: b)
    then show "astToHtml n (r\<lparr>codeBlockStyles := cs(f \<mapsto> v)\<rparr>) d =
            astToHtml n (r\<lparr>codeBlockStyles := cs(f \<mapsto> dv)\<rparr>) d"
      by (rule astToHtml_cong)
  next
    have "sameStyles (r\<lparr>codeBlockStyles := cs(f \<mapsto> v)\<rparr>) (r\<lparr>codeBlockStyles := cs(f := None)\<rparr>)"
      by (intro sameStyles_code) (simp add: a)
    then show "astToHtml n (r\<lparr>codeBlockStyles := cs(f \<mapsto> v)\<rparr>) d =
            astToHtml n (r\<lparr>codeBlockStyles := cs(f := None)\<rparr>) d"
      by (rule astToHtml_cong)
  next
    assume "(f, dv) \<in> set tableFields"
    then have "sameStyles (r\<lparr>tableStyles := ts(f \<mapsto> v)\<rparr>) (r\<lparr>tableStyles := ts(f \<mapsto> dv)\<rparr>)"
      by (intro sameStyles_table) (auto dest: field_default_unique simp: b)
    then show "astToHtml n (r\<lparr>tableStyles := ts(f \<mapsto> v)\<rparr>) d =
            astToHtml n (r\<lparr>tableStyles := ts(f \<mapsto> dv)\<rparr>) d"
      by (rule astToHtml_cong)
  next
    have "sameStyles (r\<lparr>tableStyles := ts(f \<mapsto> v)\<rparr>) (r\<lparr>tableStyles := ts(f := None)\<rparr>)"
      by (intro sameStyles_table) (simp add: a)
    then show "astToHtml n (r\<lparr>tableStyles := ts(f \<mapsto> v)\<rparr>) d =
            astToHtml n (r\<lparr>tableStyles := ts(f := None)\<rparr>) d"
      by (rule astToHtml_cong)
  qed
qed

text \<open>
  A first-level heading with font size 0, and a code block with the empty string as
  padding: both carry the defaults, 16px and 12px.
\<close>

theorem falsy_style_field_is_default_witness:
  "astToHtml (headingNode 1 [textNode ''T''])
     (mockFormattingRule\<lparr>headingStyles := DEFAULT_HEADING_STYLES
        (''h1'' \<mapsto> JObj ([''fontWeight'' \<mapsto> JNum 900](''fontSize'' \<mapsto> JNum 0)))\<rparr>) 0 =
     ''<h1 style='' @ dq @ ''font-size: 16px; font-weight: 900; margin-top: 12px; margin-bottom: 6px;'' @ dq @ ''>T''
     @ ''</h1>''
   \<and> astToHtml (codeNode ''code'' ''x'')
     (mockFormattingRule\<lparr>codeBlockStyles := DEFAULT_CODE_BLOCK_STYLES(''padding'' \<mapsto> JStr [])\<rparr>) 0 =
     ''<pre style='' @ dq @ ''font-family: monospace; font-size: 11px; background-color: #f5f5f5; padding: 12px; border-radius: 4px; overflow-x: auto; line-height: 1.4;'' @ dq @ ''>''
     @ ''<code>x</code></pre>''"
  using falsy_style_field_is_default [where v = "JNum 0" and f = "''fontSize''" and dv = "JNum 16"
          and n = "headingNode 1 [textNode ''T'']" and r = mockFormattingRule and d = 0
          and hs = DEFAULT_HEADING_STYLES and k = "''h1''" and obj = "[''fontWeight'' \<mapsto> JNum 900]"
          and cs = DEFAULT_CODE_BLOCK_STYLES and ts = DEFAULT_TABLE_STYLES]
        falsy_style_field_is_default [where v = "JStr []" and f = "''padding''" and dv = "JNum 12"
          and n = "codeNode ''code'' ''x''" and r = mockFormattingRule and d = 0
          and hs = DEFAULT_HEADING_STYLES and k = "''h1''" and obj = "Map.empty"
          and cs = DEFAULT_CODE_BLOCK_STYLES and ts = DEFAULT_TABLE_STYLES]
  by (simp add: headingFields_def codeFields_def tableFields_def headingNode_def textNode_def
        codeNode_def astToHtml_heading astToHtml_code astToHtml_text escapeHtml_def
        headingStyleOf_def js_lookup_def js_or_def DEFAULT_CODE_BLOCK_STYLES_def)

end
